theory Spec2Isabelle
  imports Complex_Main "HOL-Library.Word"
begin

section \<open>Data model (types/index.ts)\<close>

text \<open>
  A JavaScript \<open>number\<close> is modelled by the rational it denotes (every finite double is
  a rational).  The model has no infinities and no NaN: where the source produces one (a
  failed \<open>parseFloat\<close>, a division by zero) the model writes that case out.  Each
  arithmetic operation of the source is the exact operation followed by a rounding
  \<open>fl\<close>, a parameter of the functions that compute: \<open>binary64\<close> below is the rounding of
  IEEE 754 double precision, the identity gives exact arithmetic.
  A \<open>Date\<close> is its \<open>getTime()\<close> value, the milliseconds since the epoch, as an integer;
  an invalid Date is \<open>None\<close> where the source can produce one.  Strings are lists of
  8-bit characters.  An optional field (\<open>x?: T\<close>) is an \<open>option\<close>.
\<close>

type_synonym rounding = "rat \<Rightarrow> rat"

subsection \<open>Round to nearest, ties to even, with a 53-bit significand\<close>

definition pow2 :: "int \<Rightarrow> rat" where
  "pow2 k = (if 0 \<le> k then 2 ^ nat k else 1 / 2 ^ nat (- k))"

text \<open>\<open>ilog2 x\<close> is the integer \<open>e\<close> with \<open>2\<^sup>e \<le> x < 2\<^sup>e\<^sup>+\<^sup>1\<close>, for a positive \<open>x\<close>: the
  bit lengths of numerator and denominator give it up to one.\<close>

function bit_length :: "int \<Rightarrow> int" where
  "bit_length n = (if n \<le> 0 then 0 else 1 + bit_length (n div 2))"
  by pat_completeness auto
termination
  by (relation "measure nat") auto

definition ilog2 :: "rat \<Rightarrow> int" where
  "ilog2 x =
     (let (p, q) = quotient_of x;
          d = bit_length p - bit_length q
      in if pow2 d \<le> x then d else d - 1)"

definition round_half_even :: "rat \<Rightarrow> int" where
  "round_half_even n =
     (let f = \<lfloor>n\<rfloor>; r = n - of_int f
      in if r < 1 / 2 then f
         else if 1 / 2 < r then f + 1
         else if even f then f else f + 1)"

text \<open>The spacing of the doubles around \<open>x\<close> is \<open>2\<^sup>e\<^sup>-\<^sup>5\<^sup>2\<close>, with \<open>e\<close> at least \<open>-1022\<close>
  (below that the doubles are subnormal and equally spaced).  Overflow to an infinity,
  for magnitudes from \<open>2\<^sup>1\<^sup>0\<^sup>2\<^sup>4\<close> on, is not modelled.\<close>

definition binary64 :: rounding where
  "binary64 x =
     (if x = 0 then 0
      else let ulp = pow2 (max (ilog2 \<bar>x\<bar>) (- 1022) - 52)
           in of_int (round_half_even (x / ulp)) * ulp)"

datatype TransactionType = DEBIT | CREDIT

datatype TransactionSource = QFX | CSV

record Transaction =
  txn_id :: string
  date :: int
  description :: string
  amount :: rat
  txn_type :: TransactionType
  categoryId :: "string option"
  isExcluded :: bool
  source :: TransactionSource
  sourceFile :: "string option"
  accountId :: "string option"
  transactionId :: "string option"
  memo :: "string option"
  isManuallyCategorized :: bool

record RepeatedExpense =
  merchantPattern :: string
  occurrences :: nat
  averageAmount :: rat
  totalAmount :: rat
  transactionIds :: "string list"
  isLikelySubscription :: bool
  estimatedMonthly :: "rat option"

record OverallStats =
  totalDebits :: rat
  totalCredits :: rat
  net :: rat
  transactionCount :: nat
  dateRange :: "(int \<times> int) option"
  monthCount :: nat
  averageMonthlyExpenses :: rat

section \<open>Platform\<close>

text \<open>
  What the source calls and the repository does not define is a parameter: the built-in
  functions of the language, the browser's \<open>DOMParser\<close> and \<open>crypto.subtle\<close>, and the
  Papa Parse library.  A result that the source tests with \<open>isNaN\<close> is an \<open>option\<close>, with
  \<open>None\<close> for NaN; a call that can throw returns a sum, the exception's text on the left.
\<close>

datatype xml = Text string | Element string "xml list"

record PapaError =
  papa_row :: "nat option"
  papa_message :: string

record PapaResult =
  papa_data :: "(string \<rightharpoonup> string) list"
  papa_errors :: "PapaError list"

record platform =
  parseFloat :: "string \<Rightarrow> rat option"
  regExpTest :: "string \<Rightarrow> string \<Rightarrow> bool option"
  newDateISO :: "string \<Rightarrow> int option"
  newDateLocal :: "int \<Rightarrow> int \<Rightarrow> int \<Rightarrow> int option"
  toISOString :: "int \<Rightarrow> string"
  numberToString :: "rat \<Rightarrow> string"
  subtleDigest :: "(string \<Rightarrow> 8 word list) option"
  domParser :: "string \<Rightarrow> string + xml"
  papaParse :: "string \<Rightarrow> string + PapaResult"
  dateNow :: int
  mathRandom :: string

text \<open>
  \<^item> \<open>parseFloat env s\<close>: \<open>parseFloat(s)\<close>.
  \<^item> \<open>regExpTest env p s\<close>: \<open>new RegExp(p, 'i').test(s)\<close>, \<open>None\<close> if the constructor throws.
  \<^item> \<open>newDateISO env s\<close>: \<open>new Date(s).getTime()\<close>;
    \<open>newDateLocal env y m d\<close>: \<open>new Date(y, m, d).getTime()\<close>, in the local time zone.
  \<^item> \<open>toISOString env t\<close>: \<open>new Date(t).toISOString()\<close>;
    \<open>numberToString env x\<close>: the string that a template gives for the number \<open>x\<close>.
  \<^item> \<open>subtleDigest env\<close>: \<open>None\<close> if \<open>crypto.subtle\<close> is missing, else the SHA-256 digest of
    the UTF-8 encoding of a string.
  \<^item> \<open>domParser env s\<close>: the document element of \<open>parseFromString(s, 'text/xml')\<close>, or
    the text of its \<open>parsererror\<close> element.
  \<^item> \<open>papaParse env s\<close>: the results that \<open>Papa.parse\<close> hands to \<open>complete\<close> (with
    \<open>header: true\<close> each row is a map from trimmed header name to field), or the message
    that it hands to \<open>error\<close>.
  \<^item> \<open>dateNow env\<close>: \<open>Date.now()\<close>; \<open>mathRandom env\<close>: \<open>Math.random().toString(36)\<close>.
\<close>

section \<open>Utilities (lib/utils)\<close>

subsection \<open>generateId and generateTransactionId\<close>

definition hexDigit :: "nat \<Rightarrow> char" where
  "hexDigit n = ''0123456789abcdefghijklmnopqrstuvwxyz'' ! n"

text \<open>\<open>b.toString(16).padStart(2, '0')\<close> for a byte.\<close>

definition toHex2 :: "8 word \<Rightarrow> string" where
  "toHex2 b = [hexDigit (unat b div 16), hexDigit (unat b mod 16)]"

text \<open>\<open>n.toString(36)\<close> for an integer that is not negative.\<close>

function toString36 :: "int \<Rightarrow> string" where
  "toString36 n =
     (if n < 36 then [hexDigit (nat n)]
      else toString36 (n div 36) @ [hexDigit (nat (n mod 36))])"
  by pat_completeness auto
termination
  by (relation "measure nat") auto

text \<open>One round of the fallback hash: \<open>hash = ((hash << 5) - hash) + char; hash = hash & hash\<close>.
  The shift and the final \<open>&\<close> convert to a signed 32-bit integer, and the subtraction and
  the sum in between are exact, so the new value is the wrapped one.\<close>

definition hashStep :: "32 word \<Rightarrow> char \<Rightarrow> 32 word" where
  "hashStep hash c = push_bit 5 hash - hash + of_nat (of_char c)"

definition simpleHash :: "string \<Rightarrow> string" where
  "simpleHash key = (let hash = foldl hashStep 0 key in toString36 \<bar>sint hash\<bar>)"

text \<open>\<open>n.toString()\<close> for an integer that is not negative.\<close>

function natToString :: "int \<Rightarrow> string" where
  "natToString n =
     (if n < 10 then [hexDigit (nat n)]
      else natToString (n div 10) @ [hexDigit (nat (n mod 10))])"
  by pat_completeness auto
termination
  by (relation "measure nat") auto

definition intToString :: "int \<Rightarrow> string" where
  "intToString n = (if n < 0 then CHR ''-'' # natToString (- n) else natToString n)"

definition generateId :: "platform \<Rightarrow> string" where
  "generateId env = intToString (dateNow env) @ ''-'' @ take 9 (drop 2 (mathRandom env))"

definition transactionKey :: "platform \<Rightarrow> int \<Rightarrow> rat \<Rightarrow> string \<Rightarrow> string option \<Rightarrow> string" where
  "transactionKey env date' amount' description' accountId' =
     toISOString env date' @ ''_'' @ numberToString env amount' @ ''_'' @ description' @ ''_''
       @ (case accountId' of None \<Rightarrow> [] | Some a \<Rightarrow> a)"

definition generateTransactionId ::
  "platform \<Rightarrow> int \<Rightarrow> rat \<Rightarrow> string \<Rightarrow> string option \<Rightarrow> string" where
  "generateTransactionId env date' amount' description' accountId' =
     (let key = transactionKey env date' amount' description' accountId'
      in case subtleDigest env of
           Some digest \<Rightarrow> concat (map toHex2 (digest key))
         | None \<Rightarrow> simpleHash key)"

subsection \<open>truncateFilename\<close>

text \<open>\<open>s.lastIndexOf('.')\<close>, \<open>None\<close> for \<open>-1\<close>.\<close>

definition lastIndexOf :: "char \<Rightarrow> string \<Rightarrow> nat option" where
  "lastIndexOf c s =
     (case filter (\<lambda>i. s ! i = c) (rev [0..<length s]) of [] \<Rightarrow> None | i # _ \<Rightarrow> Some i)"

definition truncateFilename :: "string \<Rightarrow> nat \<Rightarrow> string" where
  "truncateFilename filename maxLength =
     (if length filename \<le> maxLength then filename
      else let extension = (case lastIndexOf CHR ''.'' filename of
                              None \<Rightarrow> [] | Some i \<Rightarrow> drop i filename);
               nameWithoutExt = (case lastIndexOf CHR ''.'' filename of
                                   None \<Rightarrow> filename | Some i \<Rightarrow> take i filename);
               availableLength = int maxLength - int (length extension) - 3
           in if availableLength \<le> 0 then ''...'' @ extension
              else ''...'' @ drop (length nameWithoutExt - nat availableLength) nameWithoutExt
                     @ extension)"

section \<open>Analytics (lib/analytics/calculator.ts)\<close>

subsection \<open>normalizeMerchant\<close>

definition is_digit :: "char \<Rightarrow> bool" where
  "is_digit c = (48 \<le> (of_char c :: nat) \<and> (of_char c :: nat) \<le> 57)"

definition is_upper :: "char \<Rightarrow> bool" where
  "is_upper c = (65 \<le> (of_char c :: nat) \<and> (of_char c :: nat) \<le> 90)"

definition is_lower :: "char \<Rightarrow> bool" where
  "is_lower c = (97 \<le> (of_char c :: nat) \<and> (of_char c :: nat) \<le> 122)"

text \<open>\<open>String.prototype.trim\<close> strips white space and line terminators; of the code
  units below 256 these are tab, LF, VT, FF, CR, space and the no-break space.\<close>

definition is_space :: "char \<Rightarrow> bool" where
  "is_space c = ((of_char c :: nat) \<in> {9, 10, 11, 12, 13, 32, 160})"

definition trim :: "string \<Rightarrow> string" where
  "trim s = rev (dropWhile is_space (rev (dropWhile is_space s)))"

text \<open>\<open>.replace(/SQ \*/gi, '')\<close>: every occurrence, scanning left to right, letters in
  either case.\<close>

fun remove_sq :: "string \<Rightarrow> string" where
  "remove_sq (a # b # c # d # rest) =
     (if (a = CHR ''S'' \<or> a = CHR ''s'') \<and> (b = CHR ''Q'' \<or> b = CHR ''q'')
         \<and> c = CHR '' '' \<and> d = CHR ''*''
      then remove_sq rest
      else a # remove_sq (b # c # d # rest))"
| "remove_sq s = s"

text \<open>\<open>.replace(/\d{10,}/g, '')\<close>: the quantifier is greedy, so a match that starts at a
  digit takes the whole run of digits from there, and needs ten of them.\<close>

function remove_long_numbers :: "string \<Rightarrow> string" where
  "remove_long_numbers [] = []"
| "remove_long_numbers (c # cs) =
     (if 10 \<le> length (takeWhile is_digit (c # cs))
      then remove_long_numbers (dropWhile is_digit (c # cs))
      else c # remove_long_numbers cs)"
  by pat_completeness auto
termination
proof (relation "measure length")
  fix c :: char and cs :: string
  assume "10 \<le> length (takeWhile is_digit (c # cs))"
  then have "is_digit c" by (auto split: if_splits)
  then have "length (dropWhile is_digit (c # cs)) \<le> length cs"
    by (simp add: length_dropWhile_le)
  then show "(dropWhile is_digit (c # cs), c # cs) \<in> measure length" by simp
qed simp_all

text \<open>\<open>.replace(/[A-Z]{2}\d{4,}/g, '')\<close>: two upper-case letters and the whole run of
  digits after them, which needs four.\<close>

function remove_location_codes :: "string \<Rightarrow> string" where
  "remove_location_codes (a # b # rest) =
     (if is_upper a \<and> is_upper b \<and> 4 \<le> length (takeWhile is_digit rest)
      then remove_location_codes (dropWhile is_digit rest)
      else a # remove_location_codes (b # rest))"
| "remove_location_codes [a] = [a]"
| "remove_location_codes [] = []"
  by pat_completeness auto
termination
proof (relation "measure length")
  fix a b :: char and rest :: string
  have "length (dropWhile is_digit rest) \<le> length rest"
    by (rule length_dropWhile_le)
  then show "(dropWhile is_digit rest, a # b # rest) \<in> measure length" by simp
qed simp_all

definition normalizeMerchant :: "string \<Rightarrow> string" where
  "normalizeMerchant description' =
     take 30 (trim (remove_location_codes (remove_long_numbers (remove_sq description'))))"

subsection \<open>groupByMerchant\<close>

text \<open>The \<open>Map\<close> of the source keeps its keys in insertion order; it is an association
  list here.  \<open>group_push\<close> is the body of the \<open>forEach\<close>: create the key with an empty
  array if it is new, then push the transaction onto the key's array.\<close>

fun group_push :: "'k \<Rightarrow> 'v \<Rightarrow> ('k \<times> 'v list) list \<Rightarrow> ('k \<times> 'v list) list" where
  "group_push k v [] = [(k, [v])]"
| "group_push k v ((k', vs) # g) =
     (if k = k' then (k', vs @ [v]) # g else (k', vs) # group_push k v g)"

definition groupByMerchant :: "Transaction list \<Rightarrow> (string \<times> Transaction list) list" where
  "groupByMerchant transactions =
     foldl (\<lambda>groups txn. group_push (normalizeMerchant (description txn)) txn groups) []
       (filter (\<lambda>t. txn_type t = DEBIT \<and> \<not> isExcluded t) transactions)"

subsection \<open>isLikelySubscription\<close>

text \<open>The \<open>for\<close> loop over \<open>i = 1 .. dates.length - 1\<close> that pushes
  \<open>(dates[i] - dates[i - 1]) / (1000 * 60 * 60 * 24)\<close>.\<close>

fun intervals :: "rounding \<Rightarrow> int list \<Rightarrow> rat list" where
  "intervals fl (a # b # ds) = fl (of_int (b - a) / 86400000) # intervals fl (b # ds)"
| "intervals fl [a] = []"
| "intervals fl [] = []"

text \<open>\<open>xs.reduce((a, b) => a + b, 0)\<close>.\<close>

definition reduce_sum :: "rounding \<Rightarrow> rat list \<Rightarrow> rat" where
  "reduce_sum fl xs = foldl (\<lambda>a b. fl (a + b)) 0 xs"

definition likelySubscription :: "rounding \<Rightarrow> Transaction list \<Rightarrow> bool" where
  "likelySubscription fl transactions =
     (if length transactions < 2 then False
      else let dates = sort (map date transactions);
               ivs = intervals fl dates
           in if length ivs = 0 then False
              else let avgInterval = fl (reduce_sum fl ivs / of_nat (length ivs))
                   in 25 \<le> avgInterval \<and> avgInterval \<le> 35)"

subsection \<open>detectRepeatedExpenses\<close>

text \<open>\<open>Math.abs(amt - avgAmount) / avgAmount <= 0.1\<close>.  With a zero average the quotient
  is \<open>0 / 0 = NaN\<close> for a zero amount and \<open>+Infinity\<close> for any other (the amounts are
  absolute values), and the comparison is false for both.\<close>

definition similarAmount :: "rounding \<Rightarrow> rat \<Rightarrow> rat \<Rightarrow> bool" where
  "similarAmount fl avgAmount amt =
     (if avgAmount = 0 then False
      else fl (\<bar>fl (amt - avgAmount)\<bar> / avgAmount) \<le> fl (1 / 10))"

text \<open>The body of \<open>groups.forEach\<close>: \<open>None\<close> where the callback returns without a
  push.\<close>

definition repeatedEntry :: "rounding \<Rightarrow> string \<Rightarrow> Transaction list \<Rightarrow> RepeatedExpense option" where
  "repeatedEntry fl merchant txns =
     (if length txns < 2 then None
      else let amounts = map (\<lambda>t. \<bar>amount t\<bar>) txns;
               avgAmount = fl (reduce_sum fl amounts / of_nat (length amounts));
               isSimilar = list_all (similarAmount fl avgAmount) amounts
           in if isSimilar
              then let sub = likelySubscription fl txns
                   in Some \<lparr> merchantPattern = merchant,
                             occurrences = length txns,
                             averageAmount = avgAmount,
                             totalAmount = reduce_sum fl amounts,
                             transactionIds = map txn_id txns,
                             isLikelySubscription = sub,
                             estimatedMonthly = (if sub then Some avgAmount else None) \<rparr>
              else None)"

text \<open>\<open>Array.prototype.sort\<close> is stable, and so is \<open>sort_key\<close>; the comparator
  \<open>b.totalAmount - a.totalAmount\<close> orders by descending total.\<close>

definition detectRepeatedExpenses :: "rounding \<Rightarrow> Transaction list \<Rightarrow> RepeatedExpense list" where
  "detectRepeatedExpenses fl transactions =
     sort_key (\<lambda>e. - totalAmount e)
       (List.map_filter (\<lambda>(merchant, txns). repeatedEntry fl merchant txns)
          (groupByMerchant transactions))"

subsection \<open>computeOverallStats\<close>

definition sumAmounts :: "rounding \<Rightarrow> Transaction list \<Rightarrow> rat" where
  "sumAmounts fl transactions = foldl (\<lambda>sum t. fl (sum + amount t)) 0 transactions"

text \<open>\<open>format(date, 'yyyy-MM')\<close> of date-fns reads the local time zone; it is the
  parameter \<open>monthKey\<close>.\<close>

definition computeOverallStats ::
  "rounding \<Rightarrow> (int \<Rightarrow> string) \<Rightarrow> Transaction list \<Rightarrow> OverallStats" where
  "computeOverallStats fl monthKey transactions =
     (let nonExcluded = filter (\<lambda>t. \<not> isExcluded t) transactions;
          expenses = filter (\<lambda>t. txn_type t = DEBIT) nonExcluded;
          totalDebits' = \<bar>sumAmounts fl expenses\<bar>;
          dateRange' = (case map date nonExcluded of
                          [] \<Rightarrow> None
                        | d # ds \<Rightarrow> Some (fold min ds d, fold max ds d));
          months = remdups (map (\<lambda>t. monthKey (date t)) nonExcluded);
          monthCount' = length months
      in \<lparr> totalDebits = totalDebits',
           totalCredits = 0,
           net = 0,
           transactionCount = length nonExcluded,
           dateRange = dateRange',
           monthCount = monthCount',
           averageMonthlyExpenses =
             (if monthCount' > 0 then fl (totalDebits' / of_nat monthCount') else 0) \<rparr>)"

section \<open>Parsers (lib/parsers)\<close>

datatype Severity = SeverityError | SeverityWarning

record ParseError =
  err_line :: "nat option"
  err_field :: "string option"
  err_message :: string
  err_severity :: Severity

record ParseResult =
  result_transactions :: "Transaction list"
  result_errors :: "ParseError list"

subsection \<open>Strings and integers\<close>

text \<open>\<open>s.split(c)\<close> for a separator of one character.\<close>

fun split :: "char \<Rightarrow> string \<Rightarrow> string list" where
  "split c [] = [[]]"
| "split c (x # xs) =
     (if x = c then [] # split c xs
      else case split c xs of p # ps \<Rightarrow> (x # p) # ps | [] \<Rightarrow> [[x]])"

fun digitsValue :: "int \<Rightarrow> string \<Rightarrow> int" where
  "digitsValue acc [] = acc"
| "digitsValue acc (d # ds) = digitsValue (10 * acc + (int (of_char d) - 48)) ds"

text \<open>\<open>parseInt(s, 10)\<close>: white space, a sign, then the digits up to the first character
  that is none; NaN (\<open>None\<close>) where there is no digit.\<close>

definition parseInt10 :: "string \<Rightarrow> int option" where
  "parseInt10 s =
     (let t = dropWhile is_space s;
          (sign, u) = (case t of
                         c # r \<Rightarrow> if c = CHR ''-'' then (- 1, r)
                                  else if c = CHR ''+'' then (1, r) else (1, t)
                       | [] \<Rightarrow> (1 :: int, t));
          ds = takeWhile is_digit u
      in if ds = [] then None else Some (sign * digitsValue 0 ds))"

text \<open>\<open>String(x).padStart(2, '0')\<close>, where \<open>x\<close> is an integer or NaN.\<close>

definition padded2 :: "int option \<Rightarrow> string" where
  "padded2 x =
     (let s = (case x of None \<Rightarrow> ''NaN'' | Some n \<Rightarrow> intToString n)
      in replicate (2 - length s) CHR ''0'' @ s)"

subsection \<open>The CSV parser (csv.ts)\<close>

definition parseCSVDate :: "platform \<Rightarrow> string \<Rightarrow> int option" where
  "parseCSVDate env dateStr =
     (if dateStr = [] then None
      else let parts = split CHR ''/'' dateStr
           in if length parts \<noteq> 3 then None
              else case (parseInt10 (parts ! 0), parseInt10 (parts ! 1), parseInt10 (parts ! 2)) of
                     (Some month, Some day, Some year) \<Rightarrow> newDateLocal env year (month - 1) day
                   | _ \<Rightarrow> None)"

text \<open>\<open>!x\<close> for a field of a row: the field is missing or empty.\<close>

definition missing :: "string option \<Rightarrow> bool" where
  "missing x = (x = None \<or> x = Some [])"

text \<open>The body of the loop over the rows, for the row \<open>record\<close> at \<open>index\<close>: the error
  that it pushes before \<open>continue\<close>, or the transaction that it pushes.  Nothing in the
  body throws on the strings that Papa Parse delivers, so the \<open>catch\<close> of the loop has no
  case.\<close>

definition csvRow :: "platform \<Rightarrow> nat \<Rightarrow> (string \<rightharpoonup> string) \<Rightarrow> ParseError + Transaction" where
  "csvRow env index record' =
     (case (record' ''Trans. Date'', record' ''Description'', record' ''Amount'') of
        (Some transDate, Some description', Some amountStr) \<Rightarrow>
          if transDate = [] \<or> description' = [] \<or> amountStr = []
          then Inl \<lparr> err_line = Some (index + 2), err_field = None,
                     err_message = ''Missing required fields (Trans. Date, Description, or Amount)'',
                     err_severity = SeverityWarning \<rparr>
          else (case parseCSVDate env transDate of
                  None \<Rightarrow>
                    Inl \<lparr> err_line = Some (index + 2), err_field = Some ''Trans. Date'',
                          err_message = ''Invalid date format: '' @ transDate,
                          err_severity = SeverityError \<rparr>
                | Some date' \<Rightarrow>
                   (case parseFloat env (filter (\<lambda>c. c \<noteq> CHR '','') amountStr) of
                      None \<Rightarrow>
                        Inl \<lparr> err_line = Some (index + 2), err_field = Some ''Amount'',
                              err_message = ''Invalid amount: '' @ amountStr,
                              err_severity = SeverityError \<rparr>
                    | Some amount' \<Rightarrow>
                        let normalizedAmount = - amount';
                            type = (if normalizedAmount < 0 then DEBIT else CREDIT);
                            id' = generateTransactionId env date' normalizedAmount description' None
                        in Inr \<lparr> txn_id = id', date = date', description = trim description',
                                 amount = normalizedAmount, txn_type = type,
                                 categoryId = None, isExcluded = False, source = CSV,
                                 sourceFile = None, accountId = None, transactionId = None,
                                 memo = (case record' ''Category'' of
                                           None \<Rightarrow> None
                                         | Some category \<Rightarrow>
                                             if category = [] then None
                                             else Some (''Original category: '' @ category)),
                                 isManuallyCategorized = False \<rparr>))
      | _ \<Rightarrow>
          Inl \<lparr> err_line = Some (index + 2), err_field = None,
                err_message = ''Missing required fields (Trans. Date, Description, or Amount)'',
                err_severity = SeverityWarning \<rparr>)"

text \<open>The rows with their indices, as \<open>data.entries()\<close> gives them.\<close>

definition csvRows :: "platform \<Rightarrow> (string \<rightharpoonup> string) list \<Rightarrow> (ParseError + Transaction) list" where
  "csvRows env data = map (\<lambda>(index, record'). csvRow env index record') (enumerate 0 data)"

fun lefts :: "('a + 'b) list \<Rightarrow> 'a list" where
  "lefts [] = []"
| "lefts (Inl a # xs) = a # lefts xs"
| "lefts (Inr b # xs) = lefts xs"

fun rights :: "('a + 'b) list \<Rightarrow> 'b list" where
  "rights [] = []"
| "rights (Inl a # xs) = rights xs"
| "rights (Inr b # xs) = b # rights xs"

text \<open>The callback \<open>complete\<close>.\<close>

definition parseCSV_complete :: "platform \<Rightarrow> PapaResult \<Rightarrow> ParseResult" where
  "parseCSV_complete env results =
     (let rows = csvRows env (papa_data results);
          parseErrors = map (\<lambda>e. \<lparr> err_line = papa_row e, err_field = None,
                                    err_message = papa_message e,
                                    err_severity = SeverityError \<rparr>)
                          (papa_errors results)
      in \<lparr> result_transactions = rights rows,
           result_errors = parseErrors @ lefts rows @
             (if rights rows = [] \<and> papa_data results \<noteq> []
              then [\<lparr> err_line = None, err_field = None,
                      err_message = ''No valid transactions found in CSV file'',
                      err_severity = SeverityError \<rparr>]
              else []) \<rparr>)"

definition parseCSV :: "platform \<Rightarrow> string \<Rightarrow> ParseResult" where
  "parseCSV env content =
     (case papaParse env content of
        Inr results \<Rightarrow> parseCSV_complete env results
      | Inl message \<Rightarrow>
          \<lparr> result_transactions = [],
            result_errors = [\<lparr> err_line = None, err_field = None,
                        err_message = ''Error parsing CSV file: '' @ message,
                        err_severity = SeverityError \<rparr>] \<rparr>)"

subsection \<open>The QFX parser (qfx.ts): from tag soup to XML\<close>

definition containerTags :: "string set" where
  "containerTags =
     {''OFX'', ''SIGNONMSGSRSV1'', ''SONRS'', ''STATUS'', ''FI'',
      ''BANKMSGSRSV1'', ''STMTTRNRS'', ''STMTRS'', ''BANKACCTFROM'', ''BANKTRANLIST'',
      ''STMTTRN'', ''LEDGERBAL'', ''AVAILBAL'',
      ''CREDITCARDMSGSRSV1'', ''CCSTMTTRNRS'', ''CCSTMTRS'', ''CCACCTFROM''}"

text \<open>The stack of open tags has its top at the head of the list.  Each function returns
  the text that the source pushes onto \<open>result\<close>, and the stack that it leaves.\<close>

text \<open>The loop at a closing tag: pop; push a closer if the popped tag is no container;
  if the popped tag is the one that is closed, push its closer and stop.\<close>

fun closeUntil :: "string \<Rightarrow> string list \<Rightarrow> string \<times> string list" where
  "closeUntil tagName [] = ([], [])"
| "closeUntil tagName (openTag # tagStack) =
     (let leaf = (if openTag \<in> containerTags then [] else ''</'' @ openTag @ ''>'')
      in if openTag = tagName then (leaf @ ''</'' @ tagName @ ''>'', tagStack)
         else let (out, rest) = closeUntil tagName tagStack in (leaf @ out, rest))"

text \<open>At an opening tag: a leaf on top of the stack is popped and closed.\<close>

definition closeLeaf :: "string list \<Rightarrow> string \<times> string list" where
  "closeLeaf tagStack =
     (case tagStack of
        [] \<Rightarrow> ([], tagStack)
      | t # ts \<Rightarrow> if t \<notin> containerTags then (''</'' @ t @ ''>'', ts) else ([], tagStack))"

text \<open>The main loop, on the input from position \<open>i\<close> on.  A \<open><\<close> with no \<open>>\<close> after it
  ends the loop.\<close>

function scan :: "string list \<Rightarrow> string \<Rightarrow> string \<times> string list" where
  "scan tagStack [] = ([], tagStack)"
| "scan tagStack (c # cs) =
     (if c = CHR ''<''
      then (if CHR ''>'' \<notin> set cs then ([], tagStack)
            else let tagContent = takeWhile (\<lambda>x. x \<noteq> CHR ''>'') cs;
                     rest = tl (dropWhile (\<lambda>x. x \<noteq> CHR ''>'') cs)
                 in if tagContent \<noteq> [] \<and> hd tagContent = CHR ''/''
                    then let (closers, st) = closeUntil (tl tagContent) tagStack;
                             (out, st') = scan st rest
                         in (closers @ out, st')
                    else let (closers, st) = closeLeaf tagStack;
                             (out, st') = scan (tagContent # st) rest
                         in (closers @ ''<'' @ tagContent @ ''>'' @ out, st'))
      else let (out, st') = scan tagStack cs in (c # out, st'))"
  by pat_completeness auto
termination
proof (relation "measure (\<lambda>(tagStack, s). length s)", goal_cases)
  case 1
  show ?case by simp
next
  case (2 tagStack c cs tagContent rest)
  have "length (tl (dropWhile (\<lambda>x. x \<noteq> CHR ''>'') cs))
          \<le> length (dropWhile (\<lambda>x. x \<noteq> CHR ''>'') cs)"
    by simp
  also have "\<dots> \<le> length cs" by (rule length_dropWhile_le)
  finally show ?case using 2 by simp
next
  case (3 tagStack c cs tagContent rest closers st)
  have "length (tl (dropWhile (\<lambda>x. x \<noteq> CHR ''>'') cs))
          \<le> length (dropWhile (\<lambda>x. x \<noteq> CHR ''>'') cs)"
    by simp
  also have "\<dots> \<le> length cs" by (rule length_dropWhile_le)
  finally show ?case using 3 by simp
next
  case (4 tagStack c cs)
  show ?case by simp
qed

definition convertOFXToXML :: "string \<Rightarrow> string" where
  "convertOFXToXML sgml =
     (let (result, tagStack) = scan [] sgml
      in result @ concat (map (\<lambda>tag. ''</'' @ tag @ ''>'') tagStack))"

text \<open>The input from the first occurrence of \<open>needle\<close> on; \<open>None\<close> where \<open>indexOf\<close> gives
  \<open>-1\<close>.\<close>

fun fromFirst :: "string \<Rightarrow> string \<Rightarrow> string option" where
  "fromFirst needle [] = (if needle = [] then Some [] else None)"
| "fromFirst needle (c # cs) =
     (if take (length needle) (c # cs) = needle then Some (c # cs) else fromFirst needle cs)"

definition extractXMLFromOFX :: "string \<Rightarrow> string + string" where
  "extractXMLFromOFX content =
     (case fromFirst ''<OFX>'' content of
        None \<Rightarrow> Inl ''Error: Invalid OFX file: <OFX> tag not found''
      | Some sgml \<Rightarrow> Inr (convertOFXToXML sgml))"

subsection \<open>The QFX parser (qfx.ts): reading the document\<close>

text \<open>\<open>node.textContent\<close>.\<close>

fun textContent :: "xml \<Rightarrow> string" where
  "textContent (Text s) = s"
| "textContent (Element t cs) = concat (map textContent cs)"

text \<open>An element and the elements below it, in document order.\<close>

fun elements :: "xml \<Rightarrow> xml list" where
  "elements (Text s) = []"
| "elements (Element t cs) = Element t cs # concat (map elements cs)"

definition descendants :: "xml \<Rightarrow> xml list" where
  "descendants e = (case e of Text s \<Rightarrow> [] | Element t cs \<Rightarrow> concat (map elements cs))"

definition tagName :: "xml \<Rightarrow> string" where
  "tagName e = (case e of Text s \<Rightarrow> [] | Element t cs \<Rightarrow> t)"

text \<open>\<open>xmlDoc.querySelectorAll(tag)\<close>, for the document with root \<open>doc\<close>.\<close>

definition querySelectorAll :: "string \<Rightarrow> xml \<Rightarrow> xml list" where
  "querySelectorAll tag doc = filter (\<lambda>e. tagName e = tag) (elements doc)"

text \<open>\<open>element.querySelector(tag)?.textContent || ''\<close>.\<close>

definition childText :: "string \<Rightarrow> xml \<Rightarrow> string" where
  "childText tag element =
     (case filter (\<lambda>e. tagName e = tag) (descendants element) of
        [] \<Rightarrow> []
      | e # _ \<Rightarrow> textContent e)"

text \<open>\<open>xmlDoc.querySelector('ANCESTOR TAG')?.textContent || ''\<close>: the first element, in
  document order, that is named \<open>tag\<close> and lies below an element named \<open>ancestor\<close>.\<close>

definition descendantText :: "string \<Rightarrow> string \<Rightarrow> xml \<Rightarrow> string" where
  "descendantText ancestor tag doc =
     (case concat (map (\<lambda>a. filter (\<lambda>e. tagName e = tag) (descendants a))
                    (querySelectorAll ancestor doc)) of
        [] \<Rightarrow> []
      | e # _ \<Rightarrow> textContent e)"

definition parseOFXDate :: "platform \<Rightarrow> string \<Rightarrow> int option" where
  "parseOFXDate env dateStr =
     (if dateStr = [] then None
      else let cleaned = takeWhile (\<lambda>c. c \<noteq> CHR ''.'') (takeWhile (\<lambda>c. c \<noteq> CHR ''['') dateStr);
               year = parseInt10 (take 4 cleaned);
               month = parseInt10 (take 2 (drop 4 cleaned));
               day = parseInt10 (take 2 (drop 6 cleaned));
               isoString = (case year of None \<Rightarrow> ''NaN'' | Some y \<Rightarrow> intToString y)
                             @ ''-'' @ padded2 month @ ''-'' @ padded2 day @ ''T00:00:00.000Z''
           in newDateISO env isoString)"

definition entityChar :: "char \<Rightarrow> bool" where
  "entityChar c = (is_lower c \<or> is_upper c \<or> is_digit c \<or> c = CHR ''#'')"

text \<open>\<open>entities[match] || match\<close>.\<close>

definition entity :: "string \<Rightarrow> string" where
  "entity m =
     (if m = ''&amp;'' then ''&''
      else if m = ''&lt;'' then ''<''
      else if m = ''&gt;'' then ''>''
      else if m = ''&quot;'' then [CHR 0x22]
      else if m = ''&#39;'' then [CHR 0x27]
      else m)"

text \<open>\<open>text.replace(/&[a-z0-9#]+;/gi, ...)\<close>: a match is an ampersand, the whole run of
  letters, digits and \<open>#\<close> after it, which is not empty, and a semicolon right after the
  run.\<close>

function decodeHTMLEntities :: "string \<Rightarrow> string" where
  "decodeHTMLEntities [] = []"
| "decodeHTMLEntities (c # cs) =
     (let run = takeWhile entityChar cs;
          after = dropWhile entityChar cs
      in if c = CHR ''&'' \<and> run \<noteq> [] \<and> after \<noteq> [] \<and> hd after = CHR '';''
         then entity (c # run @ '';'') @ decodeHTMLEntities (tl after)
         else c # decodeHTMLEntities cs)"
  by pat_completeness auto
termination
proof (relation "measure length", goal_cases)
  case 1
  show ?case by simp
next
  case (2 c cs run after)
  have "length (tl (dropWhile entityChar cs)) \<le> length (dropWhile entityChar cs)"
    by simp
  also have "\<dots> \<le> length cs" by (rule length_dropWhile_le)
  finally show ?case using 2 by simp
next
  case (3 c cs run after)
  show ?case by simp
qed

text \<open>The body of the loop over the \<open>STMTTRN\<close> elements.  \<open>TRNTYPE\<close> is read and not
  used: the type comes from the sign of the amount.  Nothing in the body throws, so the
  \<open>catch\<close> of the loop has no case.\<close>

definition qfxTransaction ::
  "platform \<Rightarrow> string option \<Rightarrow> string option \<Rightarrow> xml \<Rightarrow> ParseError + Transaction" where
  "qfxTransaction env accountId' filename txnElement =
     (let dtPosted = childText ''DTPOSTED'' txnElement;
          trnAmt = childText ''TRNAMT'' txnElement;
          fitId = childText ''FITID'' txnElement;
          name' = (if childText ''NAME'' txnElement = [] then ''Unknown''
                   else childText ''NAME'' txnElement);
          memo' = (if childText ''MEMO'' txnElement = [] then None
                   else Some (childText ''MEMO'' txnElement))
      in case parseOFXDate env dtPosted of
           None \<Rightarrow>
             Inl \<lparr> err_line = None, err_field = Some ''DTPOSTED'',
                   err_message = ''Invalid date format: '' @ dtPosted,
                   err_severity = SeverityError \<rparr>
         | Some date' \<Rightarrow>
            (case parseFloat env trnAmt of
               None \<Rightarrow>
                 Inl \<lparr> err_line = None, err_field = Some ''TRNAMT'',
                       err_message = ''Invalid amount: '' @ trnAmt,
                       err_severity = SeverityError \<rparr>
             | Some amount' \<Rightarrow>
                 let description' = decodeHTMLEntities name';
                     id' = generateTransactionId env date' amount' description' accountId';
                     normalizedType = (if amount' < 0 then DEBIT else CREDIT)
                 in Inr \<lparr> txn_id = id', date = date', description = description',
                          amount = amount', txn_type = normalizedType,
                          categoryId = None, isExcluded = False, source = QFX,
                          sourceFile = (case filename of
                                          None \<Rightarrow> None
                                        | Some f \<Rightarrow> if f = [] then None
                                                    else Some (truncateFilename f 20)),
                          accountId = accountId', transactionId = Some fitId,
                          memo = memo', isManuallyCategorized = False \<rparr>))"

text \<open>\<open>parseQFX\<close> from the call of \<open>DOMParser\<close> on.\<close>

definition parseQFX_xml :: "platform \<Rightarrow> string \<Rightarrow> string option \<Rightarrow> ParseResult" where
  "parseQFX_xml env xmlContent filename =
     (case domParser env xmlContent of
        Inl parserError \<Rightarrow>
          \<lparr> result_transactions = [],
            result_errors =
              [\<lparr> err_line = None, err_field = None,
                 err_message = ''Error parsing QFX file: Error: Failed to parse OFX XML: ''
                                 @ parserError,
                 err_severity = SeverityError \<rparr>] \<rparr>
      | Inr doc \<Rightarrow>
          let bankAcctId = descendantText ''BANKACCTFROM'' ''ACCTID'' doc;
              ccAcctId = descendantText ''CCACCTFROM'' ''ACCTID'' doc;
              accountId' = (if bankAcctId \<noteq> [] then Some bankAcctId
                            else if ccAcctId \<noteq> [] then Some ccAcctId else None);
              stmtTrnElements = querySelectorAll ''STMTTRN'' doc
          in if stmtTrnElements = []
             then \<lparr> result_transactions = [],
                    result_errors =
                      [\<lparr> err_line = None, err_field = None,
                         err_message = ''No transactions found in QFX file'',
                         err_severity = SeverityWarning \<rparr>] \<rparr>
             else let rows = map (qfxTransaction env accountId' filename) stmtTrnElements
                  in \<lparr> result_transactions = rights rows,
                       result_errors = lefts rows @
                         (if rights rows = []
                          then [\<lparr> err_line = None, err_field = None,
                                  err_message = ''No valid transactions found in QFX file'',
                                  err_severity = SeverityError \<rparr>]
                          else []) \<rparr>)"

definition parseQFX :: "platform \<Rightarrow> string \<Rightarrow> string option \<Rightarrow> ParseResult" where
  "parseQFX env content filename =
     (case extractXMLFromOFX content of
        Inl error \<Rightarrow>
          \<lparr> result_transactions = [],
            result_errors = [\<lparr> err_line = None, err_field = None,
                               err_message = ''Error parsing QFX file: '' @ error,
                               err_severity = SeverityError \<rparr>] \<rparr>
      | Inr xmlContent \<Rightarrow> parseQFX_xml env xmlContent filename)"

section \<open>Application state (context/AppContext.tsx)\<close>

text \<open>The case \<open>ADD_TRANSACTIONS\<close> of the reducer, on the transactions of the state.\<close>

definition addTransactions :: "Transaction list \<Rightarrow> Transaction list \<Rightarrow> Transaction list" where
  "addTransactions stateTransactions payload =
     (let existingIds = set (map txn_id stateTransactions);
          newTransactions = filter (\<lambda>t. txn_id t \<notin> existingIds) payload
      in stateTransactions @ newTransactions)"

section \<open>Categorization (lib/categorization/engine.ts)\<close>

record CategoryPattern =
  pattern_id :: string
  pattern :: string
  priority :: rat
  enabled :: bool
  isDefault :: bool
  pattern_description :: "string option"

record Category =
  category_id :: string
  name :: string
  color :: string
  patterns :: "CategoryPattern list"
  isCustom :: bool
  category_isDefault :: bool

record CategorizationRule =
  rule_id :: string
  rule_categoryId :: string
  rule_pattern :: string
  rule_priority :: rat
  rule_enabled :: bool

text \<open>The three private fields of the class.\<close>

record CategorizationEngine =
  categories :: "Category list"
  rules :: "CategorizationRule list"
  descriptionMappings :: "string \<rightharpoonup> string"

text \<open>An item of \<open>allPatterns\<close> or of \<open>legacyMatches\<close>; the two differ in the type of
  \<open>pattern\<close>.\<close>

record 'p PatternMatch =
  match_categoryId :: string
  match_priority :: rat
  match_pattern :: 'p

text \<open>The two \<open>for\<close> loops over the items: the first item whose pattern tests true
  returns its category; an item whose pattern does not compile is skipped.\<close>

fun firstMatch :: "platform \<Rightarrow> ('p \<Rightarrow> string) \<Rightarrow> string \<Rightarrow> 'p PatternMatch list \<Rightarrow> string option" where
  "firstMatch env src desc [] = None"
| "firstMatch env src desc (item # items) =
     (case regExpTest env (src (match_pattern item)) desc of
        Some True \<Rightarrow> Some (match_categoryId item)
      | Some False \<Rightarrow> firstMatch env src desc items
      | None \<Rightarrow> firstMatch env src desc items)"

definition allPatterns :: "CategorizationEngine \<Rightarrow> CategoryPattern PatternMatch list" where
  "allPatterns this =
     concat (map (\<lambda>category.
                    map (\<lambda>p. \<lparr> match_categoryId = category_id category,
                                match_priority = priority p, match_pattern = p \<rparr>)
                      (filter enabled (patterns category)))
               (categories this))"

definition legacyMatches :: "CategorizationEngine \<Rightarrow> string PatternMatch list" where
  "legacyMatches this =
     map (\<lambda>r. \<lparr> match_categoryId = rule_categoryId r, match_priority = rule_priority r,
                 match_pattern = rule_pattern r \<rparr>)
       (filter rule_enabled (rules this))"

text \<open>\<open>if (mappedCategoryId)\<close> takes a mapped category that is not the empty string.  Only
  \<open>allPatterns\<close> is sorted; \<open>legacyMatches\<close> is used in the order of \<open>this.rules\<close>.\<close>

definition categorize :: "platform \<Rightarrow> CategorizationEngine \<Rightarrow> Transaction \<Rightarrow> string option" where
  "categorize env this transaction =
     (let byPatterns =
            (case firstMatch env pattern (description transaction)
                    (sort_key match_priority (allPatterns this)) of
               Some c \<Rightarrow> Some c
             | None \<Rightarrow> firstMatch env id (description transaction) (legacyMatches this))
      in case descriptionMappings this (description transaction) of
           None \<Rightarrow> byPatterns
         | Some mappedCategoryId \<Rightarrow>
             if mappedCategoryId \<noteq> [] then Some mappedCategoryId else byPatterns)"

text \<open>\<open>batchCategorize\<close> assigns \<open>txn.categoryId\<close> in the objects of the array that it
  is given, and returns nothing.  The array of objects is a list of records, and the
  function returns the objects as they are after the call.  \<open>!txn.categoryId\<close> holds for
  a missing category and for the empty string.\<close>

definition batchCategorize ::
  "platform \<Rightarrow> CategorizationEngine \<Rightarrow> Transaction list \<Rightarrow> Transaction list" where
  "batchCategorize env this transactions =
     map (\<lambda>txn. if \<not> isManuallyCategorized txn \<and> categoryId txn \<in> {None, Some []}
                then txn\<lparr> categoryId := categorize env this txn \<rparr>
                else txn)
       transactions"

text \<open>The last \<open>replace\<close> of \<open>extractMerchantPattern\<close> puts a backslash before each of
  the characters \<open>. * + ? ^ $ { } ( ) | [ ]\<close> and before each backslash.\<close>

definition escapeRegExp :: "string \<Rightarrow> string" where
  "escapeRegExp s =
     concat (map (\<lambda>c. if c \<in> set ''.*+?^${}()|[]'' \<or> c = CHR 0x5C then [CHR 0x5C, c] else [c]) s)"

definition extractMerchantPattern :: "string \<Rightarrow> string" where
  "extractMerchantPattern description' =
     escapeRegExp
       (take 30 (trim (remove_location_codes (remove_long_numbers (remove_sq description')))))"

definition learnFromManualCategorization ::
  "platform \<Rightarrow> Transaction \<Rightarrow> string \<Rightarrow> CategorizationRule" where
  "learnFromManualCategorization env transaction categoryId' =
     \<lparr> rule_id = generateId env, rule_categoryId = categoryId',
       rule_pattern = extractMerchantPattern (description transaction),
       rule_priority = 100, rule_enabled = True \<rparr>"

section \<open>Notions of the specification\<close>

text \<open>Exact arithmetic: no operation rounds.\<close>

definition exact :: rounding where
  "exact x = x"

text \<open>The group of a merchant key, as the specification describes it: the debit,
  non-excluded transactions whose normalized description is the key, in input order.\<close>

definition merchantGroup :: "Transaction list \<Rightarrow> string \<Rightarrow> Transaction list" where
  "merchantGroup transactions m =
     filter (\<lambda>t. txn_type t = DEBIT \<and> \<not> isExcluded t \<and> normalizeMerchant (description t) = m)
       transactions"

text \<open>In the real numbers: the sum and the mean of the absolute amounts of a group, the
  rule that every member's absolute amount deviates from the mean by at most 10 percent
  of the mean, and the average, in days, of the gaps between consecutive dates, the dates
  in ascending order.\<close>

definition sumAbsAmount :: "Transaction list \<Rightarrow> rat" where
  "sumAbsAmount txns = sum_list (map (\<lambda>t. \<bar>amount t\<bar>) txns)"

definition meanAbsAmount :: "Transaction list \<Rightarrow> rat" where
  "meanAbsAmount txns = sumAbsAmount txns / of_nat (length txns)"

definition withinTolerance :: "Transaction list \<Rightarrow> bool" where
  "withinTolerance txns \<longleftrightarrow>
     list_all (\<lambda>t. \<bar>\<bar>amount t\<bar> - meanAbsAmount txns\<bar> \<le> meanAbsAmount txns / 10) txns"

definition consecutive :: "'a list \<Rightarrow> ('a \<times> 'a) list" where
  "consecutive xs = zip xs (tl xs)"

definition meanGapDays :: "Transaction list \<Rightarrow> rat" where
  "meanGapDays txns =
     sum_list (map (\<lambda>(a, b). of_int (b - a) / 86400000) (consecutive (sort (map date txns))))
       / of_nat (length txns - 1)"

text \<open>The same in the arithmetic of the code, where every operation is followed by the
  rounding \<open>fl\<close>.  The mean is the sum, taken from left to right from 0, divided by the
  number of members.  The deviation of a member is relative: the distance of its absolute
  amount from the mean, divided by the mean, and compared with the rounded literal
  \<open>0.1\<close>; there is no quotient by a zero mean, and then no member is within the
  tolerance.  A gap is the difference of two time values divided by the milliseconds of a
  day, and the average of the gaps is their sum divided by their number.\<close>

definition computedMean :: "rounding \<Rightarrow> Transaction list \<Rightarrow> rat" where
  "computedMean fl txns = fl (reduce_sum fl (map (\<lambda>t. \<bar>amount t\<bar>) txns) / of_nat (length txns))"

definition computedTolerance :: "rounding \<Rightarrow> Transaction list \<Rightarrow> bool" where
  "computedTolerance fl txns \<longleftrightarrow>
     computedMean fl txns \<noteq> 0 \<and>
     list_all (\<lambda>t. fl (\<bar>fl (\<bar>amount t\<bar> - computedMean fl txns)\<bar> / computedMean fl txns)
                    \<le> fl (1 / 10)) txns"

definition computedAverageGap :: "rounding \<Rightarrow> Transaction list \<Rightarrow> rat" where
  "computedAverageGap fl txns =
     fl (reduce_sum fl
           (map (\<lambda>(a, b). fl (of_int (b - a) / 86400000)) (consecutive (sort (map date txns))))
         / of_nat (length txns - 1))"

text \<open>The entry that \<open>detectRepeatedExpenses\<close> pushes for a group, as a function of the
  group.\<close>

definition entryOf :: "rounding \<Rightarrow> string \<Rightarrow> Transaction list \<Rightarrow> RepeatedExpense" where
  "entryOf fl m txns =
     (let total = reduce_sum fl (map (\<lambda>t. \<bar>amount t\<bar>) txns);
          avg = fl (total / of_nat (length txns))
      in \<lparr> merchantPattern = m, occurrences = length txns,
           averageAmount = avg, totalAmount = total,
           transactionIds = map txn_id txns,
           isLikelySubscription = likelySubscription fl txns,
           estimatedMonthly = (if likelySubscription fl txns then Some avg else None) \<rparr>)"

subsection \<open>Tag-soup fragments\<close>

text \<open>A fragment of OFX markup as a tree.  A leaf has a tag and the text up to the next
  tag; a container has a tag, the text before its first child, its children, and the text
  after its closing tag.\<close>

datatype frag = Leaf string string | Container string string "frag list" string

text \<open>The fragment as tag soup: containers are closed, leaves are not.\<close>

fun tagSoup :: "frag \<Rightarrow> string" where
  "tagSoup (Leaf t x) = ''<'' @ t @ ''>'' @ x"
| "tagSoup (Container t pre cs post) =
     ''<'' @ t @ ''>'' @ pre @ concat (map tagSoup cs) @ ''</'' @ t @ ''>'' @ post"

text \<open>The equivalent fully closed fragment.\<close>

fun fullyClosed :: "frag \<Rightarrow> string" where
  "fullyClosed (Leaf t x) = ''<'' @ t @ ''>'' @ x @ ''</'' @ t @ ''>''"
| "fullyClosed (Container t pre cs post) =
     ''<'' @ t @ ''>'' @ pre @ concat (map fullyClosed cs) @ ''</'' @ t @ ''>'' @ post"

text \<open>A tag name: a letter, then letters, digits, dots, underscores and hyphens.\<close>

definition validName :: "string \<Rightarrow> bool" where
  "validName t =
     (t \<noteq> [] \<and> (is_upper (hd t) \<or> is_lower (hd t))
      \<and> list_all (\<lambda>c. is_upper c \<or> is_lower c \<or> is_digit c
                        \<or> c = CHR ''.'' \<or> c = CHR ''_'' \<or> c = CHR ''-'') t)"

text \<open>Character data without markup: no \<open><\<close> and no \<open>&\<close>.\<close>

definition plainText :: "string \<Rightarrow> bool" where
  "plainText x = list_all (\<lambda>c. c \<noteq> CHR ''<'' \<and> c \<noteq> CHR ''&'') x"

text \<open>The fragments of the round trip: the containers are known container tags, the
  leaves are other tags, and the text is plain.\<close>

fun wellTagged :: "frag \<Rightarrow> bool" where
  "wellTagged (Leaf t x) = (t \<notin> containerTags \<and> validName t \<and> plainText x)"
| "wellTagged (Container t pre cs post) =
     (t \<in> containerTags \<and> plainText pre \<and> plainText post \<and> list_all wellTagged cs)"

text \<open>A fragment that is a whole document has only white space after its root.\<close>

fun rootFragment :: "frag \<Rightarrow> bool" where
  "rootFragment (Leaf t x) = True"
| "rootFragment (Container t pre cs post) = list_all is_space post"

text \<open>A recognizer for well-formed XML of the kind that the repair produces: one root
  element, white space only outside it, tags that are names, without attributes, closed
  in the reverse order of opening, and text between them without \<open><\<close> and \<open>&\<close>.  The
  stack holds the open elements, \<open>seen\<close> tells that the root has been opened.\<close>

function wellFormedFrom :: "string list \<Rightarrow> bool \<Rightarrow> string \<Rightarrow> bool" where
  "wellFormedFrom st seen [] = (st = [] \<and> seen)"
| "wellFormedFrom st seen (c # cs) =
     (if c = CHR ''<''
      then (if CHR ''>'' \<notin> set cs then False
            else let tag = takeWhile (\<lambda>x. x \<noteq> CHR ''>'') cs;
                     rest = tl (dropWhile (\<lambda>x. x \<noteq> CHR ''>'') cs)
                 in if tag \<noteq> [] \<and> hd tag = CHR ''/''
                    then (case st of
                            [] \<Rightarrow> False
                          | t # ts \<Rightarrow> t = tl tag \<and> wellFormedFrom ts seen rest)
                    else validName tag \<and> (st \<noteq> [] \<or> \<not> seen)
                         \<and> wellFormedFrom (tag # st) True rest)
      else c \<noteq> CHR ''&'' \<and> (st \<noteq> [] \<or> is_space c) \<and> wellFormedFrom st seen cs)"
  by pat_completeness auto
termination
proof (relation "measure (\<lambda>(st, seen, s). length s)", goal_cases)
  case 1
  show ?case by simp
next
  case (2 st seen c cs tag rest t ts)
  have "length (tl (dropWhile (\<lambda>x. x \<noteq> CHR ''>'') cs))
          \<le> length (dropWhile (\<lambda>x. x \<noteq> CHR ''>'') cs)"
    by simp
  also have "\<dots> \<le> length cs" by (rule length_dropWhile_le)
  finally show ?case using 2 by simp
next
  case (3 st seen c cs tag rest)
  have "length (tl (dropWhile (\<lambda>x. x \<noteq> CHR ''>'') cs))
          \<le> length (dropWhile (\<lambda>x. x \<noteq> CHR ''>'') cs)"
    by simp
  also have "\<dots> \<le> length cs" by (rule length_dropWhile_le)
  finally show ?case using 3 by simp
next
  case (4 st seen c cs)
  show ?case by simp
qed

definition wellFormedXML :: "string \<Rightarrow> bool" where
  "wellFormedXML s = wellFormedFrom [] False s"

text \<open>For the proof of the round trip: the closer that an opening tag pushes for the
  leaf on top of the stack, and the stack below that leaf.\<close>

definition pending :: "string list \<Rightarrow> string" where
  "pending st = fst (closeLeaf st)"

definition settled :: "string list \<Rightarrow> string list" where
  "settled st = snd (closeLeaf st)"

text \<open>What the scan does on the soup of a fragment, from a stack whose settled part has
  no leaf on top.\<close>

definition repairs :: "string list \<Rightarrow> string \<Rightarrow> string \<Rightarrow> bool" where
  "repairs st a a' \<longleftrightarrow>
     (\<exists>X st'. (\<forall>r. scan st (a @ r) = (X @ fst (scan st' r), snd (scan st' r)))
        \<and> X @ pending st' = pending st @ a' \<and> settled st' = settled st)"

section \<open>A reference platform\<close>

text \<open>
  One platform, to run the functions on examples: a browser without \<open>crypto.subtle\<close>, in
  the time zone UTC.  Its functions follow the language standard on the inputs of the
  examples; what each leaves out is said at its definition.
\<close>

subsection \<open>Numbers\<close>

text \<open>\<open>parseFloat\<close> on a decimal literal: white space, a sign, digits with an optional
  fraction, an optional exponent; what follows is ignored.  The value is exact, where
  \<open>parseFloat\<close> rounds it to a double, and the literal \<open>Infinity\<close> is not read.\<close>

definition parseDecimal :: "string \<Rightarrow> rat option" where
  "parseDecimal s =
     (let t = dropWhile is_space s;
          negative = (t \<noteq> [] \<and> hd t = CHR ''-'');
          u = (if t \<noteq> [] \<and> (hd t = CHR ''-'' \<or> hd t = CHR ''+'') then tl t else t);
          ip = takeWhile is_digit u;
          r1 = dropWhile is_digit u;
          fp = (if r1 \<noteq> [] \<and> hd r1 = CHR ''.'' then takeWhile is_digit (tl r1) else []);
          r2 = (if r1 \<noteq> [] \<and> hd r1 = CHR ''.'' then dropWhile is_digit (tl r1) else r1);
          mantissa = of_int (digitsValue 0 (ip @ fp)) / 10 ^ length fp;
          e1 = (if r2 \<noteq> [] \<and> (hd r2 = CHR ''e'' \<or> hd r2 = CHR ''E'') then tl r2 else []);
          eneg = (e1 \<noteq> [] \<and> hd e1 = CHR ''-'');
          e2 = (if e1 \<noteq> [] \<and> (hd e1 = CHR ''-'' \<or> hd e1 = CHR ''+'') then tl e1 else e1);
          ed = takeWhile is_digit e2;
          scale = (if ed = [] then 1
                   else if eneg then 1 / 10 ^ nat (digitsValue 0 ed)
                   else 10 ^ nat (digitsValue 0 ed));
          value = mantissa * scale
      in if ip = [] \<and> fp = [] then None
         else Some (if negative then - value else value))"

text \<open>The digits of a fraction \<open>x\<close> with \<open>0 \<le> x < 1\<close>, at most \<open>n\<close> of them.\<close>

fun fractionDigits :: "nat \<Rightarrow> rat \<Rightarrow> string" where
  "fractionDigits 0 x = []"
| "fractionDigits (Suc n) x =
     (if x = 0 then []
      else hexDigit (nat \<lfloor>10 * x\<rfloor>) # fractionDigits n (10 * x - of_int \<lfloor>10 * x\<rfloor>))"

text \<open>The string of a number whose decimal expansion is finite and short, in positional
  notation (the language switches to exponents from \<open>10\<^sup>2\<^sup>1\<close> on and below \<open>10\<^sup>-\<^sup>6\<close>).\<close>

definition decimalString :: "rat \<Rightarrow> string" where
  "decimalString x =
     (let a = \<bar>x\<bar>;
          whole = \<lfloor>a\<rfloor>;
          digits = fractionDigits 20 (a - of_int whole)
      in (if x < 0 then ''-'' else []) @ natToString whole
           @ (if digits = [] then [] else ''.'' @ digits))"

subsection \<open>Regular expressions\<close>

definition upperCase :: "char \<Rightarrow> char" where
  "upperCase c = (if is_lower c then char_of (of_char c - (32 :: nat)) else c)"

fun containsAt :: "string \<Rightarrow> string \<Rightarrow> bool" where
  "containsAt p [] = (p = [])"
| "containsAt p (c # cs) = (take (length p) (c # cs) = p \<or> containsAt p cs)"

text \<open>A pattern without metacharacters is a literal: the test succeeds if the subject
  contains the pattern, letters compared without case.  Other patterns are not
  interpreted.\<close>

definition literalTest :: "string \<Rightarrow> string \<Rightarrow> bool option" where
  "literalTest p s = Some (containsAt (map upperCase p) (map upperCase s))"

subsection \<open>Dates\<close>

text \<open>The day number, from the epoch, of a date of the proleptic Gregorian calendar; the
  month counts from 1.\<close>

definition daysFromCivil :: "int \<Rightarrow> int \<Rightarrow> int \<Rightarrow> int" where
  "daysFromCivil y m d =
     (let y' = (if m \<le> 2 then y - 1 else y);
          era = y' div 400;
          yoe = y' - era * 400;
          doy = (153 * (if m > 2 then m - 3 else m + 9) + 2) div 5 + d - 1;
          doe = yoe * 365 + yoe div 4 - yoe div 100 + doy
      in era * 146097 + doe - 719468)"

text \<open>The date (year, month from 1, day) of a day number.\<close>

definition civilFromDays :: "int \<Rightarrow> int \<times> int \<times> int" where
  "civilFromDays z' =
     (let z = z' + 719468;
          era = z div 146097;
          doe = z - era * 146097;
          yoe = (doe - doe div 1460 + doe div 36524 - doe div 146096) div 365;
          doy = doe - (365 * yoe + yoe div 4 - yoe div 100);
          mp = (5 * doy + 2) div 153;
          d = doy - (153 * mp + 2) div 5 + 1;
          m = (if mp < 10 then mp + 3 else mp - 9)
      in (yoe + era * 400 + (if m \<le> 2 then 1 else 0), m, d))"

text \<open>\<open>new Date(year, month, day)\<close> in UTC: the month counts from 0 and overflows into
  the year, the day counts on from the first of the month, and a year from 0 to 99 is in
  the 1900s.  The range of time values is not checked.\<close>

definition dateLocalUTC :: "int \<Rightarrow> int \<Rightarrow> int \<Rightarrow> int option" where
  "dateLocalUTC year month day =
     (let y = (if 0 \<le> year \<and> year \<le> 99 then 1900 + year else year)
      in Some ((daysFromCivil (y + month div 12) (month mod 12 + 1) 1 + (day - 1)) * 86400000))"

text \<open>\<open>new Date(s)\<close> for the strings \<open>YYYY-MM-DDT00:00:00.000Z\<close> that \<open>parseOFXDate\<close>
  builds, with a month from 01 to 12 and a day that the month has.\<close>

definition dateFromISO :: "string \<Rightarrow> int option" where
  "dateFromISO s =
     (let y = take 4 s; m = take 2 (drop 5 s); d = take 2 (drop 8 s);
          yi = digitsValue 0 y; mi = digitsValue 0 m; di = digitsValue 0 d
      in if length s = 24 \<and> list_all is_digit (y @ m @ d)
            \<and> s ! 4 = CHR ''-'' \<and> s ! 7 = CHR ''-'' \<and> drop 10 s = ''T00:00:00.000Z''
            \<and> 1 \<le> mi \<and> mi \<le> 12 \<and> 1 \<le> di
            \<and> civilFromDays (daysFromCivil yi mi di) = (yi, mi, di)
         then Some (daysFromCivil yi mi di * 86400000)
         else None)"

definition pad :: "nat \<Rightarrow> int \<Rightarrow> string" where
  "pad n x = replicate (n - length (natToString x)) CHR ''0'' @ natToString x"

text \<open>\<open>toISOString\<close> for a time value in the years 0 to 9999.\<close>

definition isoString :: "int \<Rightarrow> string" where
  "isoString t =
     (let (y, m, d) = civilFromDays (t div 86400000);
          ms = t mod 86400000
      in pad 4 y @ ''-'' @ pad 2 m @ ''-'' @ pad 2 d @ ''T'' @ pad 2 (ms div 3600000) @ '':''
           @ pad 2 (ms mod 3600000 div 60000) @ '':'' @ pad 2 (ms mod 60000 div 1000)
           @ ''.'' @ pad 3 (ms mod 1000) @ ''Z'')"

subsection \<open>XML\<close>

text \<open>A parser for the XML that \<open>wellFormedFrom\<close> accepts.  A frame of the stack is an
  open element: its tag and its children so far, the last one first.  Character
  references and entities are not decoded.\<close>

fun addText :: "char \<Rightarrow> xml list \<Rightarrow> xml list" where
  "addText c (Text s # kids) = Text (s @ [c]) # kids"
| "addText c kids = Text [c] # kids"

function parseNodes :: "(string \<times> xml list) list \<Rightarrow> xml option \<Rightarrow> string \<Rightarrow> string + xml" where
  "parseNodes frames docRoot [] =
     (case (frames, docRoot) of
        ([], Some e) \<Rightarrow> Inr e
      | _ \<Rightarrow> Inl ''unexpected end of input'')"
| "parseNodes frames docRoot (c # cs) =
     (if c = CHR ''<''
      then (if CHR ''>'' \<notin> set cs then Inl ''unclosed tag''
            else let tag = takeWhile (\<lambda>x. x \<noteq> CHR ''>'') cs;
                     rest = tl (dropWhile (\<lambda>x. x \<noteq> CHR ''>'') cs)
                 in if tag \<noteq> [] \<and> hd tag = CHR ''/''
                    then (case frames of
                            [] \<Rightarrow> Inl ''closing tag without element''
                          | (t, kids) # outer \<Rightarrow>
                              if t \<noteq> tl tag then Inl ''mismatched tag''
                              else (case outer of
                                      [] \<Rightarrow> parseNodes [] (Some (Element t (rev kids))) rest
                                    | (t', kids') # outer' \<Rightarrow>
                                        parseNodes ((t', Element t (rev kids) # kids') # outer')
                                          docRoot rest))
                    else if \<not> validName tag then Inl ''invalid tag name''
                    else if frames = [] \<and> docRoot \<noteq> None then Inl ''second docRoot element''
                    else parseNodes ((tag, []) # frames) docRoot rest)
      else if c = CHR ''&'' then Inl ''entity''
      else (case frames of
              [] \<Rightarrow> if is_space c then parseNodes [] docRoot cs
                    else Inl ''text outside the docRoot element''
            | (t, kids) # outer \<Rightarrow> parseNodes ((t, addText c kids) # outer) docRoot cs))"
  by pat_completeness auto
termination
proof (relation "measure (\<lambda>(frames, docRoot, s). length s)", goal_cases)
  case 1
  show ?case by simp
next
  case (2 frames docRoot c cs tag rest)
  have "length (tl (dropWhile (\<lambda>x. x \<noteq> CHR ''>'') cs))
          \<le> length (dropWhile (\<lambda>x. x \<noteq> CHR ''>'') cs)"
    by simp
  also have "\<dots> \<le> length cs" by (rule length_dropWhile_le)
  finally show ?case using 2 by simp
next
  case (3 frames docRoot c cs tag rest)
  have "length (tl (dropWhile (\<lambda>x. x \<noteq> CHR ''>'') cs))
          \<le> length (dropWhile (\<lambda>x. x \<noteq> CHR ''>'') cs)"
    by simp
  also have "\<dots> \<le> length cs" by (rule length_dropWhile_le)
  finally show ?case using 3 by simp
next
  case (4 frames docRoot c cs tag rest)
  have "length (tl (dropWhile (\<lambda>x. x \<noteq> CHR ''>'') cs))
          \<le> length (dropWhile (\<lambda>x. x \<noteq> CHR ''>'') cs)"
    by simp
  also have "\<dots> \<le> length cs" by (rule length_dropWhile_le)
  finally show ?case using 4 by simp
qed simp_all

definition parseXML :: "string \<Rightarrow> string + xml" where
  "parseXML s = parseNodes [] None s"

subsection \<open>CSV\<close>

text \<open>Papa Parse with \<open>header: true\<close> and \<open>skipEmptyLines: true\<close>, for comma-separated
  text whose quoted fields start with the quote: the state is whether the scan is inside
  quotes, the field so far, the fields of the row so far and the rows so far.  A row
  with more or fewer fields than the header is not reported as an error.\<close>

fun csvScan :: "bool \<Rightarrow> string \<Rightarrow> string list \<Rightarrow> string list list \<Rightarrow> string \<Rightarrow> string list list" where
  "csvScan q field' row rows [] =
     (if row = [] \<and> field' = [] then rows else rows @ [row @ [field']])"
| "csvScan q field' row rows (c # cs) =
     (if q
      then (if c = CHR 0x22
            then (if cs \<noteq> [] \<and> hd cs = CHR 0x22
                  then csvScan True (field' @ [c]) row rows (tl cs)
                  else csvScan False field' row rows cs)
            else csvScan True (field' @ [c]) row rows cs)
      else if c = CHR 0x22 then csvScan True field' row rows cs
      else if c = CHR '','' then csvScan False [] (row @ [field']) rows cs
      else if c = CHR 0x0A then csvScan False [] [] (rows @ [row @ [field']]) cs
      else if c = CHR 0x0D then csvScan False field' row rows cs
      else csvScan False (field' @ [c]) row rows cs)"

definition papaLite :: "string \<Rightarrow> string + PapaResult" where
  "papaLite content =
     (case filter (\<lambda>row. row \<noteq> [[]]) (csvScan False [] [] [] content) of
        [] \<Rightarrow> Inr \<lparr> papa_data = [], papa_errors = [] \<rparr>
      | header # rows \<Rightarrow>
          Inr \<lparr> papa_data = map (\<lambda>row. map_of (zip (map trim header) row)) rows,
                papa_errors = [] \<rparr>)"

subsection \<open>The platform\<close>

definition referencePlatform :: platform where
  "referencePlatform =
     \<lparr> parseFloat = parseDecimal, regExpTest = literalTest, newDateISO = dateFromISO,
       newDateLocal = dateLocalUTC, toISOString = isoString, numberToString = decimalString,
       subtleDigest = None, domParser = parseXML, papaParse = papaLite,
       dateNow = 1736553600000, mathRandom = ''0.4fzyo82mvyr'' \<rparr>"

section \<open>Example inputs\<close>

text \<open>A debit of \<open>amt\<close> on day \<open>day\<close> (counted from the epoch, at midnight UTC).\<close>

definition debit :: "string \<Rightarrow> int \<Rightarrow> string \<Rightarrow> rat \<Rightarrow> Transaction" where
  "debit i day desc amt =
     \<lparr> txn_id = i, date = day * 86400000, description = desc, amount = - amt,
       txn_type = DEBIT, categoryId = None, isExcluded = False, source = QFX,
       sourceFile = None, accountId = None, transactionId = None, memo = None,
       isManuallyCategorized = False \<rparr>"

definition gym_100_115 :: "Transaction list" where
  "gym_100_115 = [debit ''t1'' 0 ''GYM'' 100, debit ''t2'' 30 ''GYM'' 115]"

definition gym_pass :: "Transaction list" where
  "gym_pass = [debit ''t1'' 0 ''GYM'' 100, debit ''t2'' 30 ''GYM'' (binary64 (10999 / 100)),
               debit ''t3'' 60 ''GYM'' 91]"

definition gym_100_125 :: "Transaction list" where
  "gym_100_125 = [debit ''t1'' 0 ''GYM'' 100, debit ''t2'' 30 ''GYM'' 125]"

text \<open>Two debits of the doubles nearest to 14.85 and 18.15, and two of amount zero.\<close>

definition pair_1485_1815 :: "Transaction list" where
  "pair_1485_1815 = [debit ''t1'' 0 ''GYM'' (binary64 (1485 / 100)),
                     debit ''t2'' 30 ''GYM'' (binary64 (1815 / 100))]"

definition pair_of_zeros :: "Transaction list" where
  "pair_of_zeros = [debit ''t1'' 0 ''GYM'' 0, debit ''t2'' 30 ''GYM'' 0]"

definition streaming :: "int \<Rightarrow> Transaction list" where
  "streaming gap = [debit ''s1'' 0 ''NETFLIX.COM'' (binary64 (949 / 100)),
                    debit ''s2'' gap ''NETFLIX.COM'' (binary64 (949 / 100)),
                    debit ''s3'' (2 * gap) ''NETFLIX.COM'' (binary64 (950 / 100))]"

text \<open>Four debits of 10 whose three gaps are of 34 days 23 hours, 41 days, and 29 days
  1 hour: 105 days together.\<close>

definition uneven_gaps :: "Transaction list" where
  "uneven_gaps =
     [debit ''u0'' 0 ''GYM'' 10,
      (debit ''u1'' 0 ''GYM'' 10) \<lparr> date := 3020400000 \<rparr>,
      (debit ''u2'' 0 ''GYM'' 10) \<lparr> date := 6562800000 \<rparr>,
      (debit ''u3'' 0 ''GYM'' 10) \<lparr> date := 9072000000 \<rparr>]"

definition six_charges :: "Transaction list" where
  "six_charges =
     [debit ''c0'' 0 ''GYM'' (binary64 (13716 / 100)), debit ''c1'' 30 ''GYM'' (binary64 (13716 / 100)),
      debit ''c2'' 60 ''GYM'' (binary64 (13716 / 100)), debit ''c3'' 90 ''GYM'' (binary64 (13716 / 100)),
      debit ''c4'' 120 ''GYM'' (binary64 (13716 / 100)), debit ''c5'' 150 ''GYM'' (binary64 (13716 / 100))]"

text \<open>The row of the specification's example, under the header of the format.\<close>

definition csvExample :: string where
  "csvExample =
     ''Trans. Date,Post Date,Description,Amount,Category'' @ [CHR 0x0A]
     @ ''01/11/2025,01/11/2025,'' @ [CHR 0x22] @ ''MERCHANT X'' @ [CHR 0x22] @ '',19.01,''
     @ [CHR 0x22] @ ''Restaurants'' @ [CHR 0x22] @ [CHR 0x0A]"

text \<open>A credit-card statement with a purchase and an entry of amount zero.\<close>

definition qfxExample :: string where
  "qfxExample =
     ''OFXHEADER:100 DATA:OFXSGML <OFX><CREDITCARDMSGSRSV1><CCSTMTTRNRS><CCSTMTRS>''
     @ ''<CURDEF>USD<CCACCTFROM><ACCTID>1234</CCACCTFROM><BANKTRANLIST>''
     @ ''<STMTTRN><TRNTYPE>DEBIT<DTPOSTED>20250115120000[0:GMT]<TRNAMT>-42.50''
     @ ''<FITID>F1<NAME>COFFEE SHOP</STMTTRN>''
     @ ''<STMTTRN><TRNTYPE>DEBIT<DTPOSTED>20250116120000.000<TRNAMT>0.00''
     @ ''<FITID>F2<NAME>ADJUSTMENT</STMTTRN>''
     @ ''</BANKTRANLIST></CCSTMTRS></CCSTMTTRNRS></CREDITCARDMSGSRSV1></OFX>''"

text \<open>The row that Papa Parse delivers for the line of \<open>csvExample\<close>.\<close>

definition exampleRow :: "string \<rightharpoonup> string" where
  "exampleRow =
     map_of [(''Trans. Date'', ''01/11/2025''), (''Post Date'', ''01/11/2025''),
             (''Description'', ''MERCHANT X''), (''Amount'', ''19.01''),
             (''Category'', ''Restaurants'')]"

text \<open>Two legacy rules that both match a description; the second has the lower priority
  number.\<close>

definition legacyEngine :: CategorizationEngine where
  "legacyEngine =
     \<lparr> categories = [],
       rules = [\<lparr> rule_id = ''r1'', rule_categoryId = ''shopping'', rule_pattern = ''amazon'',
                  rule_priority = 20, rule_enabled = True \<rparr>,
                \<lparr> rule_id = ''r2'', rule_categoryId = ''subscriptions'',
                  rule_pattern = ''amazon prime'', rule_priority = 10, rule_enabled = True \<rparr>],
       descriptionMappings = Map.empty \<rparr>"

definition primeVideo :: Transaction where
  "primeVideo = debit ''p1'' 0 ''AMAZON PRIME VIDEO'' (1499 / 100)"

text \<open>An engine with one category and one pattern, and three transactions: one without
  a category, one with a category, one categorized by hand.\<close>

definition coffeeEngine :: CategorizationEngine where
  "coffeeEngine =
     \<lparr> categories =
         [\<lparr> category_id = ''restaurants'', name = ''Restaurants'', color = ''#ff0000'',
            patterns = [\<lparr> pattern_id = ''p1'', pattern = ''coffee'', priority = 10,
                          enabled = True, isDefault = True, pattern_description = None \<rparr>],
            isCustom = False, category_isDefault = True \<rparr>],
       rules = [], descriptionMappings = Map.empty \<rparr>"

definition coffeeBatch :: "Transaction list" where
  "coffeeBatch =
     [debit ''b1'' 0 ''COFFEE SHOP'' 4,
      (debit ''b2'' 1 ''COFFEE SHOP'' 5) \<lparr> categoryId := Some ''groceries'' \<rparr>,
      (debit ''b3'' 2 ''COFFEE SHOP'' 6) \<lparr> isManuallyCategorized := True \<rparr>]"

text \<open>The reference platform at another time, with another random number.\<close>

definition laterPlatform :: platform where
  "laterPlatform = referencePlatform \<lparr> dateNow := 1736640000000, mathRandom := ''0.9k2j5h1xq7c'' \<rparr>"

text \<open>A leaf followed by a sibling leaf, in a container.\<close>

definition soupExample :: frag where
  "soupExample =
     Container ''STMTTRN'' []
       [Leaf ''TRNTYPE'' ''DEBIT'', Leaf ''TRNAMT'' ''-42.50'', Leaf ''NAME'' ''COFFEE SHOP'']
       []"

section \<open>Analytics: lemmas\<close>

lemma reduce_sum_exact: "reduce_sum exact xs = sum_list xs"
proof -
  have "foldl (\<lambda>a b. exact (a + b)) a xs = a + sum_list xs" for a
    by (induction xs arbitrary: a) (simp_all add: exact_def add.assoc)
  then show ?thesis by (simp add: reduce_sum_def)
qed

lemma group_push_map_of:
  "map_of (group_push k v g) =
     (map_of g)(k \<mapsto> (case map_of g k of None \<Rightarrow> [v] | Some vs \<Rightarrow> vs @ [v]))"
  by (induction g) (auto simp: fun_eq_iff)

lemma group_push_keys:
  "map fst (group_push k v g) = (if k \<in> fst ` set g then map fst g else map fst g @ [k])"
  by (induction g) (force split: if_splits)+

lemma groups_distinct:
  "distinct (map fst (foldl (\<lambda>g x. group_push (key x) x g) [] xs))"
  by (induction xs rule: rev_induct) (simp_all add: group_push_keys)

lemma groups_map_of:
  "map_of (foldl (\<lambda>g x. group_push (key x) x g) [] xs) k =
     (if k \<in> key ` set xs then Some (filter (\<lambda>x. key x = k) xs) else None)"
proof (induction xs rule: rev_induct)
  case Nil
  show ?case by simp
next
  case (snoc x xs)
  show ?case
  proof (cases "key x = k")
    case False
    with snoc show ?thesis by (auto simp: group_push_map_of)
  next
    case True
    show ?thesis
    proof (cases "k \<in> key ` set xs")
      case True
      with snoc \<open>key x = k\<close> show ?thesis by (simp add: group_push_map_of)
    next
      case False
      then have "filter (\<lambda>x. key x = k) xs = []"
        by (auto simp: filter_empty_conv)
      with snoc False \<open>key x = k\<close> show ?thesis by (simp add: group_push_map_of)
    qed
  qed
qed

lemma groups_member:
  "(k, vs) \<in> set (foldl (\<lambda>g x. group_push (key x) x g) [] xs) \<longleftrightarrow>
     vs = filter (\<lambda>x. key x = k) xs \<and> vs \<noteq> []"
proof -
  have "(k, vs) \<in> set (foldl (\<lambda>g x. group_push (key x) x g) [] xs) \<longleftrightarrow>
        map_of (foldl (\<lambda>g x. group_push (key x) x g) [] xs) k = Some vs"
    using groups_distinct [of key xs] by simp
  also have "\<dots> \<longleftrightarrow> vs = filter (\<lambda>x. key x = k) xs \<and> vs \<noteq> []"
    by (auto simp: groups_map_of filter_empty_conv)
  finally show ?thesis .
qed

lemma groupByMerchant_member:
  "(m, txns) \<in> set (groupByMerchant ts) \<longleftrightarrow> txns = merchantGroup ts m \<and> txns \<noteq> []"
  unfolding groupByMerchant_def merchantGroup_def
  by (simp add: groups_member conj_commute conj_left_commute cong: conj_cong)

lemma set_map_filter: "set (List.map_filter f xs) = {y. \<exists>x\<in>set xs. f x = Some y}"
  by (induction xs) (auto split: option.splits)

text \<open>The test that the code performs on a group.\<close>

lemma repeatedEntry_unfold:
  "repeatedEntry fl m txns =
     (if length txns < 2 then None
      else if list_all
                (similarAmount fl (fl (reduce_sum fl (map (\<lambda>t. \<bar>amount t\<bar>) txns) / of_nat (length txns))))
                (map (\<lambda>t. \<bar>amount t\<bar>) txns)
           then Some (entryOf fl m txns) else None)"
  by (simp add: repeatedEntry_def Let_def entryOf_def)

lemma merchantPattern_entryOf: "merchantPattern (entryOf fl m txns) = m"
  by (simp add: entryOf_def Let_def)

lemma repeatedEntry_Some:
  "repeatedEntry fl m txns = Some e \<Longrightarrow> 2 \<le> length txns \<and> e = entryOf fl m txns"
  by (auto simp: repeatedEntry_unfold split: if_splits)

lemma detectRepeatedExpenses_set:
  "e \<in> set (detectRepeatedExpenses fl ts) \<longleftrightarrow>
     repeatedEntry fl (merchantPattern e) (merchantGroup ts (merchantPattern e)) = Some e"
proof
  assume "e \<in> set (detectRepeatedExpenses fl ts)"
  then obtain m txns where g: "(m, txns) \<in> set (groupByMerchant ts)"
    and e: "repeatedEntry fl m txns = Some e"
    by (auto simp: detectRepeatedExpenses_def set_map_filter)
  from e have "merchantPattern e = m"
    by (auto dest: repeatedEntry_Some simp: merchantPattern_entryOf)
  with g e show "repeatedEntry fl (merchantPattern e) (merchantGroup ts (merchantPattern e)) = Some e"
    by (simp add: groupByMerchant_member)
next
  assume e: "repeatedEntry fl (merchantPattern e) (merchantGroup ts (merchantPattern e)) = Some e"
  then have "merchantGroup ts (merchantPattern e) \<noteq> []"
    by (auto simp: repeatedEntry_unfold)
  then have "(merchantPattern e, merchantGroup ts (merchantPattern e)) \<in> set (groupByMerchant ts)"
    by (simp add: groupByMerchant_member)
  with e show "e \<in> set (detectRepeatedExpenses fl ts)"
    by (force simp: detectRepeatedExpenses_def set_map_filter)
qed

lemma sumAbsAmount_nonneg: "0 \<le> sumAbsAmount txns"
  unfolding sumAbsAmount_def by (rule sum_list_nonneg) auto

lemma meanAbsAmount_nonneg: "0 \<le> meanAbsAmount txns"
  unfolding meanAbsAmount_def by (simp add: sumAbsAmount_nonneg)

text \<open>The test that the code performs on the amounts of a group is the tolerance in the
  arithmetic of the code.\<close>

lemma similarAmount_computed:
  assumes "txns \<noteq> []"
  shows "list_all (similarAmount fl (computedMean fl txns)) (map (\<lambda>t. \<bar>amount t\<bar>) txns)
           \<longleftrightarrow> computedTolerance fl txns"
proof (cases "computedMean fl txns = 0")
  case True
  from assms obtain t where "t \<in> set txns" by (cases txns) auto
  with True show ?thesis
    by (auto simp: similarAmount_def computedTolerance_def list_all_iff)
next
  case False
  then show ?thesis
    by (simp add: similarAmount_def computedTolerance_def list_all_iff)
qed

lemma repeatedEntry_computed:
  "repeatedEntry fl m txns =
     (if 2 \<le> length txns \<and> computedTolerance fl txns then Some (entryOf fl m txns) else None)"
proof (cases "length txns < 2")
  case True
  then show ?thesis by (simp add: repeatedEntry_unfold)
next
  case False
  then have "txns \<noteq> []" by auto
  then have "list_all (similarAmount fl (computedMean fl txns)) (map (\<lambda>t. \<bar>amount t\<bar>) txns)
               \<longleftrightarrow> computedTolerance fl txns"
    by (rule similarAmount_computed)
  with False show ?thesis by (simp add: repeatedEntry_unfold computedMean_def)
qed

lemma detectRepeatedExpenses_iff:
  "e \<in> set (detectRepeatedExpenses fl ts) \<and> merchantPattern e = m \<longleftrightarrow>
     2 \<le> length (merchantGroup ts m) \<and> computedTolerance fl (merchantGroup ts m)
     \<and> e = entryOf fl m (merchantGroup ts m)"
  by (auto simp: detectRepeatedExpenses_set repeatedEntry_computed merchantPattern_entryOf)

lemma length_intervals: "length (intervals fl ds) = length ds - 1"
  by (induction fl ds rule: intervals.induct) simp_all

text \<open>The loop over the indices pushes the gaps of the consecutive pairs.\<close>

lemma intervals_consecutive:
  "intervals fl ds = map (\<lambda>(a, b). fl (of_int (b - a) / 86400000)) (consecutive ds)"
  by (induction fl ds rule: intervals.induct) (simp_all add: consecutive_def)

lemma likelySubscription_computed:
  assumes "2 \<le> length txns"
  shows "likelySubscription fl txns \<longleftrightarrow>
           25 \<le> computedAverageGap fl txns \<and> computedAverageGap fl txns \<le> 35"
proof -
  have len: "length (intervals fl (sort (map date txns))) = length txns - 1"
    by (simp add: length_intervals)
  with assms have "length (intervals fl (sort (map date txns))) \<noteq> 0" by simp
  moreover have "computedAverageGap fl txns =
      fl (reduce_sum fl (intervals fl (sort (map date txns)))
          / of_nat (length (intervals fl (sort (map date txns)))))"
    unfolding len by (simp add: computedAverageGap_def intervals_consecutive)
  ultimately show ?thesis
    using assms by (simp add: likelySubscription_def Let_def)
qed

lemma detectRepeatedExpenses_entry:
  assumes "e \<in> set (detectRepeatedExpenses fl ts)"
  shows "2 \<le> length (merchantGroup ts (merchantPattern e))
         \<and> e = entryOf fl (merchantPattern e) (merchantGroup ts (merchantPattern e))"
  using assms unfolding detectRepeatedExpenses_set by (rule repeatedEntry_Some)

text \<open>In exact arithmetic the computed notions are those of the real numbers, but for
  the zero mean.\<close>

lemma computedMean_exact: "computedMean exact txns = meanAbsAmount txns"
  by (simp add: computedMean_def reduce_sum_exact meanAbsAmount_def sumAbsAmount_def exact_def)

lemma computedTolerance_exact:
  "computedTolerance exact txns \<longleftrightarrow> meanAbsAmount txns \<noteq> 0 \<and> withinTolerance txns"
proof (cases "meanAbsAmount txns = 0")
  case True
  then show ?thesis by (simp add: computedTolerance_def computedMean_exact)
next
  case False
  with meanAbsAmount_nonneg [of txns] have "0 < meanAbsAmount txns" by simp
  then have "exact (\<bar>exact (a - meanAbsAmount txns)\<bar> / meanAbsAmount txns) \<le> exact (1 / 10)
               \<longleftrightarrow> \<bar>a - meanAbsAmount txns\<bar> \<le> meanAbsAmount txns / 10" for a
    by (simp add: exact_def field_simps)
  with False show ?thesis
    by (simp add: computedTolerance_def computedMean_exact withinTolerance_def)
qed

lemma computedAverageGap_exact: "computedAverageGap exact txns = meanGapDays txns"
  by (simp add: computedAverageGap_def meanGapDays_def reduce_sum_exact)
    (simp add: exact_def)

section \<open>Analytics: claims\<close>

text \<open>
  C4, as the code has it.  For any rounding of the arithmetic: a merchant group (the
  debit, non-excluded transactions of one normalized merchant key) with two or more
  members that passes the amount-similarity test has exactly one entry in the result of
  \<open>detectRepeatedExpenses\<close>; the entry has \<open>isLikelySubscription\<close> exactly when the
  average of the gaps between consecutive dates, in ascending order and counted in days,
  lies in the closed interval from 25 to 35, the average being the one that the
  arithmetic of the code gives: every gap a rounded quotient, their sum taken from left
  to right, and the sum divided by their number.  Its \<open>estimatedMonthly\<close> is then the
  group's average absolute amount, in the same arithmetic, and is absent otherwise.
\<close>

theorem subscription_iff_average_gap:
  assumes "2 \<le> length (merchantGroup ts m)" and "computedTolerance fl (merchantGroup ts m)"
  shows "\<exists>e. e \<in> set (detectRepeatedExpenses fl ts) \<and> merchantPattern e = m
           \<and> (\<forall>e'\<in>set (detectRepeatedExpenses fl ts). merchantPattern e' = m \<longrightarrow> e' = e)
           \<and> (isLikelySubscription e \<longleftrightarrow>
              25 \<le> computedAverageGap fl (merchantGroup ts m)
              \<and> computedAverageGap fl (merchantGroup ts m) \<le> 35)
           \<and> estimatedMonthly e =
               (if isLikelySubscription e then Some (computedMean fl (merchantGroup ts m)) else None)"
proof -
  define G where "G = merchantGroup ts m"
  from assms have wt: "computedTolerance fl G" and len: "2 \<le> length G"
    by (simp_all add: G_def)
  have iff: "\<And>e. e \<in> set (detectRepeatedExpenses fl ts) \<and> merchantPattern e = m \<longleftrightarrow> e = entryOf fl m G"
    using wt len by (simp add: detectRepeatedExpenses_iff G_def)
  have avg: "averageAmount (entryOf fl m G) = computedMean fl G"
    by (simp add: entryOf_def Let_def computedMean_def)
  have "entryOf fl m G \<in> set (detectRepeatedExpenses fl ts) \<and> merchantPattern (entryOf fl m G) = m"
    using iff by blast
  moreover have "\<forall>e'\<in>set (detectRepeatedExpenses fl ts). merchantPattern e' = m \<longrightarrow> e' = entryOf fl m G"
    using iff by blast
  moreover have "isLikelySubscription (entryOf fl m G) \<longleftrightarrow>
              25 \<le> computedAverageGap fl G \<and> computedAverageGap fl G \<le> 35"
    using len by (simp add: entryOf_def Let_def likelySubscription_computed)
  moreover have "estimatedMonthly (entryOf fl m G) =
               (if isLikelySubscription (entryOf fl m G) then Some (computedMean fl G) else None)"
    using avg by (simp add: entryOf_def Let_def)
  ultimately show ?thesis unfolding G_def by blast
qed

theorem subscription_iff_average_gap_witness:
  "(\<exists>e. e \<in> set (detectRepeatedExpenses binary64 (streaming 30)) \<and> merchantPattern e = ''NETFLIX.COM''
       \<and> isLikelySubscription e
       \<and> estimatedMonthly e = Some (5344271557812989 / 562949953421312))
   \<and> (\<exists>e. e \<in> set (detectRepeatedExpenses binary64 (streaming 10)) \<and> merchantPattern e = ''NETFLIX.COM''
       \<and> \<not> isLikelySubscription e \<and> estimatedMonthly e = None)"
proof -
  have g30: "2 \<le> length (merchantGroup (streaming 30) ''NETFLIX.COM'')"
    and t30: "computedTolerance binary64 (merchantGroup (streaming 30) ''NETFLIX.COM'')"
    and a30: "computedAverageGap binary64 (merchantGroup (streaming 30) ''NETFLIX.COM'') = 30"
    and m30: "computedMean binary64 (merchantGroup (streaming 30) ''NETFLIX.COM'')
                = 5344271557812989 / 562949953421312"
    by code_simp+
  have g10: "2 \<le> length (merchantGroup (streaming 10) ''NETFLIX.COM'')"
    and t10: "computedTolerance binary64 (merchantGroup (streaming 10) ''NETFLIX.COM'')"
    and a10: "computedAverageGap binary64 (merchantGroup (streaming 10) ''NETFLIX.COM'') = 10"
    by code_simp+
  from subscription_iff_average_gap [OF g30 t30] obtain e where
    e: "e \<in> set (detectRepeatedExpenses binary64 (streaming 30))" "merchantPattern e = ''NETFLIX.COM''"
    and s: "isLikelySubscription e \<longleftrightarrow> 25 \<le> (30 :: rat) \<and> (30 :: rat) \<le> 35"
    and m: "estimatedMonthly e =
              (if isLikelySubscription e then Some (5344271557812989 / 562949953421312) else None)"
    unfolding a30 m30 by blast
  from s have s': "isLikelySubscription e" by simp
  with m have "estimatedMonthly e = Some (5344271557812989 / 562949953421312)" by simp
  with e s' have 1: "\<exists>e. e \<in> set (detectRepeatedExpenses binary64 (streaming 30)) \<and> merchantPattern e = ''NETFLIX.COM''
       \<and> isLikelySubscription e
       \<and> estimatedMonthly e = Some (5344271557812989 / 562949953421312)" by blast
  from subscription_iff_average_gap [OF g10 t10] obtain e' where
    e': "e' \<in> set (detectRepeatedExpenses binary64 (streaming 10))" "merchantPattern e' = ''NETFLIX.COM''"
    and s2: "isLikelySubscription e' \<longleftrightarrow> 25 \<le> (10 :: rat) \<and> (10 :: rat) \<le> 35"
    and m2: "estimatedMonthly e' = (if isLikelySubscription e' then Some (computedMean binary64 (merchantGroup (streaming 10) ''NETFLIX.COM'')) else None)"
    unfolding a10 by blast
  from s2 have s2': "\<not> isLikelySubscription e'" by simp
  with m2 have "estimatedMonthly e' = None" by simp
  with e' s2' have 2: "\<exists>e. e \<in> set (detectRepeatedExpenses binary64 (streaming 10)) \<and> merchantPattern e = ''NETFLIX.COM''
       \<and> \<not> isLikelySubscription e \<and> estimatedMonthly e = None" by blast
  from 1 2 show ?thesis by (rule conjI)
qed

text \<open>
  C4, the ends of the interval.  Four debits of 10 to one merchant, with gaps of 34 days
  23 hours, 41 days, and 29 days 1 hour: the average of the gaps is 35 days, inside the
  closed interval, and the group passes the amount-similarity test, but in double
  precision the quotients round and their sum is 105.00000000000001, so the average is
  35.00000000000001 and the entry is not flagged.
\<close>

theorem average_gap_35_not_flagged:
  "meanGapDays (merchantGroup uneven_gaps ''GYM'') = 35
   \<and> withinTolerance (merchantGroup uneven_gaps ''GYM'')
   \<and> computedAverageGap binary64 (merchantGroup uneven_gaps ''GYM'')
       = 4925812092436481 / 140737488355328
   \<and> detectRepeatedExpenses binary64 uneven_gaps =
       [\<lparr> merchantPattern = ''GYM'', occurrences = 4, averageAmount = 10,
          totalAmount = 40, transactionIds = [''u0'', ''u1'', ''u2'', ''u3''],
          isLikelySubscription = False, estimatedMonthly = None \<rparr>]"
  by code_simp

text \<open>
  C5, as the code has it.  For any rounding of the arithmetic, \<open>detectRepeatedExpenses\<close>
  reports a merchant key exactly when its group has at least two members and every
  member passes the comparison that the code performs: the distance of the member's
  absolute amount from the mean, divided by the mean, is at most \<open>0.1\<close>, all in the
  arithmetic of the code, where a zero mean passes no member.  An entry that is reported
  lists the transactions of the whole group.  In double precision the amounts 100,
  109.99 and 91 qualify and 100 and 125 do not.
\<close>

theorem repeated_group_reported_iff:
  "((\<exists>e\<in>set (detectRepeatedExpenses fl ts). merchantPattern e = m) \<longleftrightarrow>
      2 \<le> length (merchantGroup ts m) \<and> computedTolerance fl (merchantGroup ts m))
   \<and> (\<forall>e\<in>set (detectRepeatedExpenses fl ts).
         merchantPattern e = m \<longrightarrow> transactionIds e = map txn_id (merchantGroup ts m))"
proof -
  have "(\<exists>e\<in>set (detectRepeatedExpenses fl ts). merchantPattern e = m) \<longleftrightarrow>
        (\<exists>e. e \<in> set (detectRepeatedExpenses fl ts) \<and> merchantPattern e = m)"
    by blast
  also have "\<dots> \<longleftrightarrow> 2 \<le> length (merchantGroup ts m) \<and> computedTolerance fl (merchantGroup ts m)"
    unfolding detectRepeatedExpenses_iff by simp
  finally have a: "(\<exists>e\<in>set (detectRepeatedExpenses fl ts). merchantPattern e = m) \<longleftrightarrow>
      2 \<le> length (merchantGroup ts m) \<and> computedTolerance fl (merchantGroup ts m)" .
  have b: "transactionIds e = map txn_id (merchantGroup ts m)"
    if "e \<in> set (detectRepeatedExpenses fl ts)" "merchantPattern e = m" for e
  proof -
    from that have "e = entryOf fl m (merchantGroup ts m)"
      using detectRepeatedExpenses_iff [of e fl ts m] by simp
    then show ?thesis by (simp add: entryOf_def Let_def)
  qed
  from a b show ?thesis by blast
qed

theorem repeated_group_reported_iff_witness:
  "(\<exists>e\<in>set (detectRepeatedExpenses binary64 gym_pass). merchantPattern e = ''GYM'')
   \<and> \<not> (\<exists>e\<in>set (detectRepeatedExpenses binary64 gym_100_125). merchantPattern e = ''GYM'')"
proof -
  have p: "2 \<le> length (merchantGroup gym_pass ''GYM'')
           \<and> computedTolerance binary64 (merchantGroup gym_pass ''GYM'')"
    by code_simp
  have f: "\<not> (2 \<le> length (merchantGroup gym_100_125 ''GYM'')
              \<and> computedTolerance binary64 (merchantGroup gym_100_125 ''GYM''))"
    by code_simp
  have "(\<exists>e\<in>set (detectRepeatedExpenses binary64 gym_pass). merchantPattern e = ''GYM'')"
    using conjunct1 [OF repeated_group_reported_iff [of binary64 gym_pass "''GYM''"]] p by (rule iffD2)
  moreover have "\<not> (\<exists>e\<in>set (detectRepeatedExpenses binary64 gym_100_125). merchantPattern e = ''GYM'')"
    using conjunct1 [OF repeated_group_reported_iff [of binary64 gym_100_125 "''GYM''"]] f by (simp only: simp_thms)
  ultimately show ?thesis by (rule conjI)
qed

text \<open>
  C5, the amounts 100 and 115, and the rule in the real numbers.  Two debits of 100 and
  115 to one merchant are each 7.5 away from their mean 107.5, which is less than 10
  percent of it, so the group is reported and not dropped, in double precision and in
  exact arithmetic alike.  The doubles nearest to 14.85 and 18.15 are within 10 percent
  of their mean, but the group is dropped: the mean is 16.5 and the quotient of the
  rounded distance 1.6500000000000004 by it rounds to 0.10000000000000002.  Two debits
  of amount zero are at no distance from their mean, and the group is dropped: the
  quotient of zero by zero is not a number.
\<close>

theorem tolerance_100_115_reported:
  "detectRepeatedExpenses binary64 gym_100_115 =
     [\<lparr> merchantPattern = ''GYM'', occurrences = 2, averageAmount = 215 / 2,
        totalAmount = 215, transactionIds = [''t1'', ''t2''],
        isLikelySubscription = True, estimatedMonthly = Some (215 / 2) \<rparr>]
   \<and> detectRepeatedExpenses exact gym_100_115 =
     [\<lparr> merchantPattern = ''GYM'', occurrences = 2, averageAmount = 215 / 2,
        totalAmount = 215, transactionIds = [''t1'', ''t2''],
        isLikelySubscription = True, estimatedMonthly = Some (215 / 2) \<rparr>]
   \<and> withinTolerance (merchantGroup pair_1485_1815 ''GYM'')
   \<and> detectRepeatedExpenses binary64 pair_1485_1815 = []
   \<and> withinTolerance (merchantGroup pair_of_zeros ''GYM'')
   \<and> detectRepeatedExpenses binary64 pair_of_zeros = []"
  by code_simp

text \<open>
  C10, as the code has it.  For any rounding of the arithmetic, every entry of the result
  has \<open>occurrences\<close> equal to the length of \<open>transactionIds\<close> and at least 2, lists the
  ids of its merchant group, has \<open>totalAmount\<close> equal to the left-to-right sum of the
  group's absolute amounts, and \<open>averageAmount\<close> equal to \<open>totalAmount\<close> divided by
  \<open>occurrences\<close>.
\<close>

theorem repeated_expense_fields:
  "\<forall>e\<in>set (detectRepeatedExpenses fl ts).
     occurrences e = length (transactionIds e) \<and> 2 \<le> occurrences e
     \<and> transactionIds e = map txn_id (merchantGroup ts (merchantPattern e))
     \<and> totalAmount e =
         reduce_sum fl (map (\<lambda>t. \<bar>amount t\<bar>) (merchantGroup ts (merchantPattern e)))
     \<and> averageAmount e = fl (totalAmount e / of_nat (occurrences e))"
proof
  fix e assume "e \<in> set (detectRepeatedExpenses fl ts)"
  then have len: "2 \<le> length (merchantGroup ts (merchantPattern e))"
    and e: "e = entryOf fl (merchantPattern e) (merchantGroup ts (merchantPattern e))"
    by (simp_all add: detectRepeatedExpenses_entry)
  define G where "G = merchantGroup ts (merchantPattern e)"
  have f: "occurrences e = length G" "transactionIds e = map txn_id G"
    "totalAmount e = reduce_sum fl (map (\<lambda>t. \<bar>amount t\<bar>) G)"
    "averageAmount e = fl (reduce_sum fl (map (\<lambda>t. \<bar>amount t\<bar>) G) / of_nat (length G))"
    by (subst e, simp add: entryOf_def Let_def G_def)+
  show "occurrences e = length (transactionIds e) \<and> 2 \<le> occurrences e
     \<and> transactionIds e = map txn_id (merchantGroup ts (merchantPattern e))
     \<and> totalAmount e =
         reduce_sum fl (map (\<lambda>t. \<bar>amount t\<bar>) (merchantGroup ts (merchantPattern e)))
     \<and> averageAmount e = fl (totalAmount e / of_nat (occurrences e))"
    using len unfolding f G_def [symmetric] by simp
qed

lemma six_charges_detected:
  "detectRepeatedExpenses binary64 six_charges =
     [\<lparr> merchantPattern = ''GYM'', occurrences = 6,
        averageAmount = 4825888475704197 / 35184372088832,
        totalAmount = 7238832713556295 / 8796093022208,
        transactionIds = [''c0'', ''c1'', ''c2'', ''c3'', ''c4'', ''c5''],
        isLikelySubscription = True,
        estimatedMonthly = Some (4825888475704197 / 35184372088832) \<rparr>]"
  by code_simp

theorem repeated_expense_fields_witness:
  "detectRepeatedExpenses binary64 six_charges \<noteq> []
   \<and> averageAmount (hd (detectRepeatedExpenses binary64 six_charges)) =
       binary64 (totalAmount (hd (detectRepeatedExpenses binary64 six_charges)) / 6)
   \<and> totalAmount (hd (detectRepeatedExpenses binary64 six_charges)) = 7238832713556295 / 8796093022208"
proof -
  have ne: "detectRepeatedExpenses binary64 six_charges \<noteq> []"
    and occ: "occurrences (hd (detectRepeatedExpenses binary64 six_charges)) = 6"
    and tot: "totalAmount (hd (detectRepeatedExpenses binary64 six_charges)) = 7238832713556295 / 8796093022208"
    by (simp_all add: six_charges_detected)
  from ne have "hd (detectRepeatedExpenses binary64 six_charges) \<in> set (detectRepeatedExpenses binary64 six_charges)"
    by (rule hd_in_set)
  with repeated_expense_fields [of binary64 six_charges]
  have "averageAmount (hd (detectRepeatedExpenses binary64 six_charges)) =
       binary64 (totalAmount (hd (detectRepeatedExpenses binary64 six_charges))
         / of_nat (occurrences (hd (detectRepeatedExpenses binary64 six_charges))))"
    by blast
  with ne tot show ?thesis unfolding occ by simp
qed

text \<open>
  C10, the product.  Six debits of 137.16 to one merchant: in double precision the total
  is 822.9599999999999 and the average 137.16, whose product with 6 is not the total,
  neither exactly nor after rounding (it rounds to 822.96).
\<close>

theorem average_times_occurrences_rounds:
  "averageAmount (hd (detectRepeatedExpenses binary64 six_charges))
     * of_nat (occurrences (hd (detectRepeatedExpenses binary64 six_charges)))
     \<noteq> totalAmount (hd (detectRepeatedExpenses binary64 six_charges))
   \<and> binary64 (averageAmount (hd (detectRepeatedExpenses binary64 six_charges))
        * of_nat (occurrences (hd (detectRepeatedExpenses binary64 six_charges))))
     \<noteq> totalAmount (hd (detectRepeatedExpenses binary64 six_charges))"
  unfolding six_charges_detected by code_simp

text \<open>In exact arithmetic the product is the total, and the total the sum of the
  absolute amounts.\<close>

lemma exact_average_times_occurrences:
  assumes "e \<in> set (detectRepeatedExpenses exact ts)"
  shows "averageAmount e * of_nat (occurrences e) = totalAmount e"
    and "totalAmount e = sumAbsAmount (merchantGroup ts (merchantPattern e))"
proof -
  define G where "G = merchantGroup ts (merchantPattern e)"
  from assms have len: "2 \<le> length G" and e: "e = entryOf exact (merchantPattern e) G"
    by (simp_all add: detectRepeatedExpenses_entry G_def)
  have f: "occurrences e = length G" "totalAmount e = sumAbsAmount G"
    "averageAmount e = sumAbsAmount G / of_nat (length G)"
    by (subst e, simp add: entryOf_def Let_def reduce_sum_exact sumAbsAmount_def exact_def)+
  from len have "rat_of_nat (length G) \<noteq> 0" by auto
  then show "averageAmount e * of_nat (occurrences e) = totalAmount e"
    unfolding f by simp
  show "totalAmount e = sumAbsAmount (merchantGroup ts (merchantPattern e))"
    unfolding f G_def ..
qed

text \<open>
  C9.  On an empty transaction collection \<open>computeOverallStats\<close> returns a month count of
  0, an average of monthly expenses of 0 (the guard \<open>monthCount > 0\<close> fails, so the
  quotient is never formed) and no date range.
\<close>

theorem computeOverallStats_empty:
  "monthCount (computeOverallStats fl monthKey []) = 0
   \<and> averageMonthlyExpenses (computeOverallStats fl monthKey []) = 0
   \<and> dateRange (computeOverallStats fl monthKey []) = None"
  by (simp add: computeOverallStats_def)

section \<open>Tag-soup repair: lemmas\<close>


lemma containerTags_names:
  "t \<in> containerTags \<Longrightarrow> validName t"
  unfolding containerTags_def by (auto simp: validName_def is_upper_def is_lower_def is_digit_def)

lemma validName_tag:
  assumes "validName t"
  shows "CHR ''>'' \<notin> set t" and "\<not> (t \<noteq> [] \<and> hd t = CHR ''/'')"
  using assms
  by (auto simp: validName_def list_all_iff is_upper_def is_lower_def is_digit_def)

lemma takeWhile_tag: "CHR ''>'' \<notin> set t \<Longrightarrow> takeWhile (\<lambda>x. x \<noteq> CHR ''>'') (t @ CHR ''>'' # r) = t"
  by (induction t) auto

lemma dropWhile_tag: "CHR ''>'' \<notin> set t \<Longrightarrow> dropWhile (\<lambda>x. x \<noteq> CHR ''>'') (t @ CHR ''>'' # r) = CHR ''>'' # r"
  by (induction t) auto

lemma scan_text:
  "CHR ''<'' \<notin> set x \<Longrightarrow> scan st (x @ r) = (x @ fst (scan st r), snd (scan st r))"
  by (induction x) (auto simp: case_prod_beta)

declare scan.simps [simp del]

lemma scan_open:
  assumes "CHR ''>'' \<notin> set t" and "\<not> (t \<noteq> [] \<and> hd t = CHR ''/'')"
  shows "scan st (CHR ''<'' # t @ CHR ''>'' # r) =
           (fst (closeLeaf st) @ CHR ''<'' # t @ CHR ''>'' # fst (scan (t # snd (closeLeaf st)) r),
            snd (scan (t # snd (closeLeaf st)) r))"
  using assms
  by (auto simp: scan.simps takeWhile_tag dropWhile_tag case_prod_beta Let_def)

lemma scan_close:
  assumes "CHR ''>'' \<notin> set t"
  shows "scan st (CHR ''<'' # CHR ''/'' # t @ CHR ''>'' # r) =
           (fst (closeUntil t st) @ fst (scan (snd (closeUntil t st)) r),
            snd (scan (snd (closeUntil t st)) r))"
proof -
  from assms have 1: "takeWhile (\<lambda>x. x \<noteq> CHR ''>'') (CHR ''/'' # t @ CHR ''>'' # r) = CHR ''/'' # t"
    and 2: "dropWhile (\<lambda>x. x \<noteq> CHR ''>'') (CHR ''/'' # t @ CHR ''>'' # r) = CHR ''>'' # r"
    by (simp_all add: takeWhile_tag dropWhile_tag)
  show ?thesis
    by (subst scan.simps) (simp only: 1 2, simp add: case_prod_beta Let_def)
qed


lemma pending_settled_Nil [simp]: "pending [] = []" "settled [] = []"
  by (simp_all add: pending_def settled_def closeLeaf_def)

lemma pending_settled_container [simp]:
  "t \<in> containerTags \<Longrightarrow> pending (t # st) = []"
  "t \<in> containerTags \<Longrightarrow> settled (t # st) = t # st"
  by (simp_all add: pending_def settled_def closeLeaf_def)

lemma pending_settled_leaf [simp]:
  "t \<notin> containerTags \<Longrightarrow> pending (t # st) = ''</'' @ t @ ''>''"
  "t \<notin> containerTags \<Longrightarrow> settled (t # st) = st"
  by (simp_all add: pending_def settled_def closeLeaf_def)

lemma closeUntil_settled:
  assumes "settled s = t # base" and "t \<in> containerTags"
  shows "closeUntil t s = (pending s @ ''</'' @ t @ ''>'', base)"
proof (cases s)
  case Nil
  with assms show ?thesis by simp
next
  case (Cons u us)
  show ?thesis
  proof (cases "u \<in> containerTags")
    case True
    with assms Cons show ?thesis by simp
  next
    case False
    with assms Cons have "us = t # base" and "u \<noteq> t" by auto
    with False assms Cons show ?thesis by simp
  qed
qed

lemma repairs_Nil: "repairs st [] []"
  unfolding repairs_def by (rule exI [of _ "[]"], rule exI [of _ st]) simp

lemma repairs_append:
  assumes "repairs st a a'" and "\<And>st'. settled st' = settled st \<Longrightarrow> repairs st' b b'"
  shows "repairs st (a @ b) (a' @ b')"
proof -
  from assms(1) obtain X st1 where
    1: "\<And>r. scan st (a @ r) = (X @ fst (scan st1 r), snd (scan st1 r))"
    and 2: "X @ pending st1 = pending st @ a'" and 3: "settled st1 = settled st"
    unfolding repairs_def by blast
  from assms(2) [OF 3] obtain Y st2 where
    4: "\<And>r. scan st1 (b @ r) = (Y @ fst (scan st2 r), snd (scan st2 r))"
    and 5: "Y @ pending st2 = pending st1 @ b'" and 6: "settled st2 = settled st1"
    unfolding repairs_def by blast
  have "\<forall>r. scan st ((a @ b) @ r) = ((X @ Y) @ fst (scan st2 r), snd (scan st2 r))"
    by (simp add: 1 4)
  moreover have "(X @ Y) @ pending st2 = pending st @ a' @ b'"
    using 2 5 by (metis append.assoc)
  moreover have "settled st2 = settled st" using 3 6 by simp
  ultimately show ?thesis unfolding repairs_def by blast
qed

lemma repairs_forest:
  assumes "\<And>c st. c \<in> set cs \<Longrightarrow> pending (settled st) = [] \<Longrightarrow> repairs st (tagSoup c) (fullyClosed c)"
    and "pending (settled st) = []"
  shows "repairs st (concat (map tagSoup cs)) (concat (map fullyClosed cs))"
  using assms
proof (induction cs arbitrary: st)
  case Nil
  show ?case by (simp add: repairs_Nil)
next
  case (Cons c cs)
  have "repairs st (tagSoup c @ concat (map tagSoup cs)) (fullyClosed c @ concat (map fullyClosed cs))"
  proof (rule repairs_append)
    show "repairs st (tagSoup c) (fullyClosed c)"
      using Cons.prems by simp
  next
    fix st' assume "settled st' = settled st"
    with Cons.prems(2) have "pending (settled st') = []" by simp
    then show "repairs st' (concat (map tagSoup cs)) (concat (map fullyClosed cs))"
      using Cons.prems(1) by (intro Cons.IH) simp_all
  qed
  then show ?case by simp
qed

lemma plainText_no_lt: "plainText x \<Longrightarrow> CHR ''<'' \<notin> set x"
  by (auto simp: plainText_def list_all_iff)

lemma repairs_frag:
  "wellTagged f \<Longrightarrow> pending (settled st) = [] \<Longrightarrow> repairs st (tagSoup f) (fullyClosed f)"
proof (induction f arbitrary: st)
  case (Leaf t x)
  then have t: "t \<notin> containerTags" "CHR ''>'' \<notin> set t" "\<not> (t \<noteq> [] \<and> hd t = CHR ''/'')"
    and x: "CHR ''<'' \<notin> set x"
    by (auto dest: validName_tag plainText_no_lt)
  have "\<forall>r. scan st (tagSoup (Leaf t x) @ r) =
          ((pending st @ ''<'' @ t @ ''>'' @ x) @ fst (scan (t # settled st) r),
           snd (scan (t # settled st) r))"
    using t x by (simp add: scan_open scan_text pending_def settled_def)
  moreover have "(pending st @ ''<'' @ t @ ''>'' @ x) @ pending (t # settled st)
                   = pending st @ fullyClosed (Leaf t x)"
    using t by simp
  moreover have "settled (t # settled st) = settled st"
    using t by simp
  ultimately show ?case unfolding repairs_def by blast
next
  case (Container t pre cs post)
  then have t: "t \<in> containerTags" and pre: "CHR ''<'' \<notin> set pre"
    and post: "CHR ''<'' \<notin> set post" and cs: "\<forall>c\<in>set cs. wellTagged c"
    by (auto dest: plainText_no_lt simp: list_all_iff)
  from t have tn: "CHR ''>'' \<notin> set t" "\<not> (t \<noteq> [] \<and> hd t = CHR ''/'')"
    by (auto dest: containerTags_names validName_tag)
  define s0 where "s0 = t # settled st"
  have s0: "pending (settled s0) = []" "settled s0 = s0" "pending s0 = []"
    using t by (simp_all add: s0_def)
  have "repairs s0 (concat (map tagSoup cs)) (concat (map fullyClosed cs))"
  proof (rule repairs_forest)
    fix c st' assume "c \<in> set cs" "pending (settled st') = []"
    with cs show "repairs st' (tagSoup c) (fullyClosed c)"
      by (intro Container.IH) auto
  qed (rule s0)
  then obtain Y s1 where
    Y: "\<And>r. scan s0 (concat (map tagSoup cs) @ r) = (Y @ fst (scan s1 r), snd (scan s1 r))"
    and Yp: "Y @ pending s1 = concat (map fullyClosed cs)" and s1: "settled s1 = t # settled st"
    unfolding repairs_def using s0 by (auto simp: s0_def)
  have cu: "closeUntil t s1 = (pending s1 @ ''</'' @ t @ ''>'', settled st)"
    using s1 t by (rule closeUntil_settled)
  have "\<forall>r. scan st (tagSoup (Container t pre cs post) @ r) =
          ((pending st @ ''<'' @ t @ ''>'' @ pre @ Y @ pending s1 @ ''</'' @ t @ ''>'' @ post)
             @ fst (scan (settled st) r),
           snd (scan (settled st) r))"
    using tn pre post
    by (simp add: scan_open scan_text scan_close Y [unfolded s0_def] cu
        pending_def [symmetric] settled_def [symmetric])
  moreover have "(pending st @ ''<'' @ t @ ''>'' @ pre @ Y @ pending s1 @ ''</'' @ t @ ''>'' @ post)
                  @ pending (settled st) = pending st @ fullyClosed (Container t pre cs post)"
    using Yp Container.prems(2) by (simp add: Yp [symmetric])
  moreover have "settled (settled st) = settled st"
    using Container.prems(2) by (cases "settled st") (auto simp: pending_def settled_def closeLeaf_def split: if_splits)
  ultimately show ?case unfolding repairs_def by blast
qed

lemma convert_tagSoup:
  assumes "wellTagged f"
  shows "convertOFXToXML (tagSoup f) = fullyClosed f"
proof -
  from repairs_frag [OF assms, of "[]"] obtain X st' where
    1: "\<And>r. scan [] (tagSoup f @ r) = (X @ fst (scan st' r), snd (scan st' r))"
    and 2: "X @ pending st' = fullyClosed f" and 3: "settled st' = []"
    unfolding repairs_def by auto
  from 1 [of "[]"] have s: "scan [] (tagSoup f) = (X, st')" by (simp add: scan.simps)
  have "concat (map (\<lambda>tag. ''</'' @ tag @ ''>'') st') = pending st'"
  proof (cases st')
    case Nil
    then show ?thesis by simp
  next
    case (Cons u us)
    with 3 show ?thesis by (cases "u \<in> containerTags") auto
  qed
  with s 2 show ?thesis by (simp add: convertOFXToXML_def)
qed


declare wellFormedFrom.simps [simp del]

lemma wellFormed_text:
  "plainText x \<Longrightarrow> st \<noteq> [] \<Longrightarrow> wellFormedFrom st seen (x @ r) = wellFormedFrom st seen r"
  by (induction x) (auto simp: plainText_def wellFormedFrom.simps)

lemma wellFormed_space:
  "list_all is_space x \<Longrightarrow> wellFormedFrom st seen (x @ r) = wellFormedFrom st seen r"
proof (induction x)
  case Nil
  show ?case by simp
next
  case (Cons c x)
  then have "is_space c" by simp
  then have "c \<noteq> CHR ''<''" "c \<noteq> CHR ''&''" by (auto simp: is_space_def)
  with Cons \<open>is_space c\<close> show ?case by (simp add: wellFormedFrom.simps)
qed

lemma wellFormed_open:
  assumes "validName t"
  shows "wellFormedFrom st seen (CHR ''<'' # t @ CHR ''>'' # r) =
           ((st \<noteq> [] \<or> \<not> seen) \<and> wellFormedFrom (t # st) True r)"
  using assms validName_tag [OF assms]
  by (auto simp: wellFormedFrom.simps takeWhile_tag dropWhile_tag Let_def)

lemma wellFormed_close:
  assumes "CHR ''>'' \<notin> set t"
  shows "wellFormedFrom (u # st) seen (CHR ''<'' # CHR ''/'' # t @ CHR ''>'' # r) =
           (u = t \<and> wellFormedFrom st seen r)"
proof -
  from assms have 1: "takeWhile (\<lambda>x. x \<noteq> CHR ''>'') (CHR ''/'' # t @ CHR ''>'' # r) = CHR ''/'' # t"
    and 2: "dropWhile (\<lambda>x. x \<noteq> CHR ''>'') (CHR ''/'' # t @ CHR ''>'' # r) = CHR ''>'' # r"
    by (simp_all add: takeWhile_tag dropWhile_tag)
  show ?thesis
    by (subst wellFormedFrom.simps) (simp only: 1 2, simp add: Let_def)
qed

lemma wellFormed_forest:
  assumes "\<And>c r. c \<in> set cs \<Longrightarrow>
             wellFormedFrom st True (fullyClosed c @ r) = wellFormedFrom st True r"
  shows "wellFormedFrom st True (concat (map fullyClosed cs) @ r) = wellFormedFrom st True r"
  using assms by (induction cs) simp_all

lemma wellTagged_name: "wellTagged f \<Longrightarrow> validName (case f of Leaf t x \<Rightarrow> t | Container t pre cs post \<Rightarrow> t)"
  by (cases f) (auto dest: containerTags_names)

lemma wellFormed_frag:
  "wellTagged f \<Longrightarrow> st \<noteq> [] \<Longrightarrow>
   wellFormedFrom st True (fullyClosed f @ r) = wellFormedFrom st True r"
proof (induction f arbitrary: st r)
  case (Leaf t x)
  then have "validName t" "plainText x" by simp_all
  with Leaf.prems(2) show ?case
    by (simp add: wellFormed_open wellFormed_text wellFormed_close validName_tag)
next
  case (Container t pre cs post)
  then have t: "validName t" and pre: "plainText pre" and post: "plainText post"
    and cs: "\<forall>c\<in>set cs. wellTagged c"
    by (auto dest: containerTags_names simp: list_all_iff)
  have inner: "wellFormedFrom (t # st) True (concat (map fullyClosed cs) @ r') =
                 wellFormedFrom (t # st) True r'" for r'
  proof (rule wellFormed_forest)
    fix c r assume "c \<in> set cs"
    with cs show "wellFormedFrom (t # st) True (fullyClosed c @ r) = wellFormedFrom (t # st) True r"
      by (intro Container.IH) auto
  qed
  from Container.prems(2) t pre post show ?case
    by (simp add: wellFormed_open wellFormed_text wellFormed_close validName_tag inner)
qed

lemma wellFormed_fullyClosed:
  assumes "wellTagged f" and "rootFragment f"
  shows "wellFormedXML (fullyClosed f)"
proof (cases f)
  case (Leaf t x)
  with assms have "validName t" "plainText x" by simp_all
  then show ?thesis
    using wellFormed_text [of x "[t]" True "CHR ''<'' # CHR ''/'' # t @ [CHR ''>'']"]
    by (simp add: Leaf wellFormedXML_def wellFormed_open wellFormed_close validName_tag
        wellFormedFrom.simps(1))
next
  case (Container t pre cs post)
  with assms have t: "validName t" and pre: "plainText pre" and post: "list_all is_space post"
    and cs: "\<forall>c\<in>set cs. wellTagged c"
    by (auto dest: containerTags_names simp: list_all_iff)
  have inner: "wellFormedFrom [t] True (concat (map fullyClosed cs) @ r') =
                 wellFormedFrom [t] True r'" for r'
  proof (rule wellFormed_forest)
    fix c r assume "c \<in> set cs"
    with cs show "wellFormedFrom [t] True (fullyClosed c @ r) = wellFormedFrom [t] True r"
      by (intro wellFormed_frag) auto
  qed
  have "wellFormedFrom [] True (post @ []) = wellFormedFrom [] True []"
    using post by (rule wellFormed_space)
  then have "wellFormedFrom [] True post" by (simp add: wellFormedFrom.simps(1))
  with t pre show ?thesis
    by (simp add: Container wellFormedXML_def wellFormed_open wellFormed_text
        wellFormed_close validName_tag inner)
qed

section \<open>Tag-soup repair: claims\<close>

text \<open>
  C3.  For a fragment whose containers are known container tags, whose leaves are other
  tags and whose text is plain, with nothing but white space after the root: the repair
  of the tag soup is the equivalent fully closed fragment, character for character; it is
  well-formed; and the QFX parser, from the call of the XML parser on, returns for the
  repaired markup what it returns for the fully closed fragment, on every platform.
\<close>

theorem tagSoup_round_trip:
  assumes "wellTagged f" and "rootFragment f"
  shows "convertOFXToXML (tagSoup f) = fullyClosed f
    \<and> wellFormedXML (convertOFXToXML (tagSoup f))
    \<and> parseQFX_xml env (convertOFXToXML (tagSoup f)) filename
        = parseQFX_xml env (fullyClosed f) filename"
  using assms by (simp add: convert_tagSoup wellFormed_fullyClosed)

theorem tagSoup_round_trip_witness:
  "convertOFXToXML ''<STMTTRN><TRNTYPE>DEBIT<TRNAMT>-42.50<NAME>COFFEE SHOP</STMTTRN>''
     = ''<STMTTRN><TRNTYPE>DEBIT</TRNTYPE><TRNAMT>-42.50</TRNAMT><NAME>COFFEE SHOP</NAME></STMTTRN>''
   \<and> wellFormedXML
        (convertOFXToXML ''<STMTTRN><TRNTYPE>DEBIT<TRNAMT>-42.50<NAME>COFFEE SHOP</STMTTRN>'')"
proof -
  have w: "wellTagged soupExample" "rootFragment soupExample"
    by code_simp+
  have s: "tagSoup soupExample
             = ''<STMTTRN><TRNTYPE>DEBIT<TRNAMT>-42.50<NAME>COFFEE SHOP</STMTTRN>''"
    and c: "fullyClosed soupExample
             = ''<STMTTRN><TRNTYPE>DEBIT</TRNTYPE><TRNAMT>-42.50</TRNAMT><NAME>COFFEE SHOP</NAME></STMTTRN>''"
    by (simp_all add: soupExample_def)
  from tagSoup_round_trip [OF w, of referencePlatform None]
  show ?thesis unfolding s c by blast
qed

text \<open>The repair is made for tag soup: where a leaf has a closing tag of its own, the
  loop at the closing tag pushes the closer twice, and the result is not well-formed.\<close>

lemma closed_leaf_closed_twice:
  "convertOFXToXML ''<STMTTRN><NAME>X</NAME></STMTTRN>''
     = ''<STMTTRN><NAME>X</NAME></NAME></STMTTRN>''
   \<and> \<not> wellFormedXML (convertOFXToXML ''<STMTTRN><NAME>X</NAME></STMTTRN>'')"
  by code_simp

section \<open>Parsers: lemmas\<close>

lemma set_rights: "t \<in> set (rights xs) \<longleftrightarrow> Inr t \<in> set xs"
  by (induction xs rule: rights.induct) auto

lemma csvRow_missing:
  assumes "missing (r ''Trans. Date'') \<or> missing (r ''Description'') \<or> missing (r ''Amount'')"
  shows "\<exists>e. csvRow env index r = Inl e"
proof (cases "r ''Trans. Date''")
  case None
  then show ?thesis by (simp add: csvRow_def)
next
  case td: (Some transDate)
  show ?thesis
  proof (cases "r ''Description''")
    case None
    with td show ?thesis by (simp add: csvRow_def)
  next
    case d: (Some d)
    show ?thesis
    proof (cases "r ''Amount''")
      case None
      with td d show ?thesis by (simp add: csvRow_def)
    next
      case (Some s)
      with td d assms have "transDate = [] \<or> d = [] \<or> s = []"
        by (simp add: missing_def)
      with td d Some show ?thesis by (simp add: csvRow_def)
    qed
  qed
qed

lemma csvRow_present:
  assumes "r ''Trans. Date'' = Some transDate" and "transDate \<noteq> []"
    and "r ''Description'' = Some d" and "d \<noteq> []"
    and "r ''Amount'' = Some s" and "s \<noteq> []"
  shows "(parseCSVDate env transDate = None \<longrightarrow> (\<exists>e. csvRow env index r = Inl e))
    \<and> (parseFloat env (filter (\<lambda>c. c \<noteq> CHR '','') s) = None \<longrightarrow> (\<exists>e. csvRow env index r = Inl e))
    \<and> (\<forall>day a. parseCSVDate env transDate = Some day
           \<and> parseFloat env (filter (\<lambda>c. c \<noteq> CHR '','') s) = Some a \<longrightarrow>
          (\<exists>t. csvRow env index r = Inr t \<and> amount t = - a
             \<and> txn_type t = (if - a < 0 then DEBIT else CREDIT)))"
  using assms by (simp add: csvRow_def Let_def split: option.splits)

lemma csvRow_amount:
  assumes "csvRow env index r = Inr t"
  shows "\<exists>s a. r ''Amount'' = Some s
           \<and> parseFloat env (filter (\<lambda>c. c \<noteq> CHR '','') s) = Some a
           \<and> amount t = - a \<and> txn_type t = (if - a < 0 then DEBIT else CREDIT)"
proof -
  from assms csvRow_missing [of r env index]
  have "\<not> missing (r ''Trans. Date'')" "\<not> missing (r ''Description'')"
    "\<not> missing (r ''Amount'')"
    by auto
  then obtain transDate d s where
    f: "r ''Trans. Date'' = Some transDate" "transDate \<noteq> []"
       "r ''Description'' = Some d" "d \<noteq> []" "r ''Amount'' = Some s" "s \<noteq> []"
    by (auto simp: missing_def)
  note p = csvRow_present [OF f, of env index]
  from p assms obtain day where day: "parseCSVDate env transDate = Some day"
    by (cases "parseCSVDate env transDate") auto
  from p assms obtain a where a: "parseFloat env (filter (\<lambda>c. c \<noteq> CHR '','') s) = Some a"
    by (cases "parseFloat env (filter (\<lambda>c. c \<noteq> CHR '','') s)") auto
  from p day a obtain t' where "csvRow env index r = Inr t'" "amount t' = - a"
    "txn_type t' = (if - a < 0 then DEBIT else CREDIT)"
    by blast
  with assms f a show ?thesis by auto
qed

lemma csvRow_accepts:
  assumes "r ''Trans. Date'' = Some transDate" and "transDate \<noteq> []"
    and "r ''Description'' = Some d" and "d \<noteq> []"
    and "r ''Amount'' = Some s" and "s \<noteq> []"
    and "parseCSVDate env transDate = Some day"
    and "parseFloat env (filter (\<lambda>c. c \<noteq> CHR '','') s) = Some a"
  shows "\<exists>t. csvRow env index r = Inr t \<and> amount t = - a
           \<and> txn_type t = (if - a < 0 then DEBIT else CREDIT)"
  using csvRow_present [OF assms(1-6), of env index] assms(7,8) by blast

lemma rights_map:
  assumes "t \<in> set (rights (map f xs))"
  shows "\<exists>x. f x = Inr t"
proof -
  from assms obtain x where "Inr t = f x" by (auto simp: set_rights)
  then have "f x = Inr t" by simp
  then show ?thesis ..
qed

lemma parseCSV_transactions:
  assumes "t \<in> set (result_transactions (parseCSV env content))"
  shows "\<exists>index r. csvRow env index r = Inr t"
proof (cases "papaParse env content")
  case (Inl message)
  with assms show ?thesis by (simp add: parseCSV_def)
next
  case (Inr results)
  with assms have "t \<in> set (rights (csvRows env (papa_data results)))"
    by (simp add: parseCSV_def parseCSV_complete_def Let_def)
  then obtain x where "(case x of (index, r) \<Rightarrow> csvRow env index r) = Inr t"
    unfolding csvRows_def by (blast dest: rights_map)
  then show ?thesis by (cases x) auto
qed

lemma qfxTransaction_sign:
  assumes "qfxTransaction env acct filename e = Inr t"
  shows "amount t < 0 \<longleftrightarrow> txn_type t = DEBIT"
  using assms
  by (auto simp: qfxTransaction_def Let_def split: option.splits if_splits)

lemma parseQFX_xml_transactions:
  "result_transactions (parseQFX_xml env xmlContent filename) = []
   \<or> (\<exists>acct es. result_transactions (parseQFX_xml env xmlContent filename)
                      = rights (map (qfxTransaction env acct filename) es))"
proof (cases "domParser env xmlContent")
  case (Inl parserError)
  then show ?thesis by (simp add: parseQFX_xml_def)
next
  case (Inr doc)
  show ?thesis
  proof (cases "querySelectorAll ''STMTTRN'' doc = []")
    case True
    with Inr show ?thesis by (simp add: parseQFX_xml_def Let_def)
  next
    case False
    define acct where "acct =
      (if descendantText ''BANKACCTFROM'' ''ACCTID'' doc \<noteq> []
       then Some (descendantText ''BANKACCTFROM'' ''ACCTID'' doc)
       else if descendantText ''CCACCTFROM'' ''ACCTID'' doc \<noteq> []
            then Some (descendantText ''CCACCTFROM'' ''ACCTID'' doc) else None)"
    from Inr False have "result_transactions (parseQFX_xml env xmlContent filename)
                      = rights (map (qfxTransaction env acct filename)
                                  (querySelectorAll ''STMTTRN'' doc))"
      unfolding acct_def by (simp add: parseQFX_xml_def Let_def)
    then show ?thesis by blast
  qed
qed

lemma parseQFX_transactions:
  assumes "t \<in> set (result_transactions (parseQFX env content filename))"
  shows "\<exists>acct e. qfxTransaction env acct filename e = Inr t"
proof (cases "extractXMLFromOFX content")
  case (Inl error)
  with assms show ?thesis by (simp add: parseQFX_def)
next
  case (Inr xmlContent)
  with assms have t: "t \<in> set (result_transactions (parseQFX_xml env xmlContent filename))"
    by (simp add: parseQFX_def)
  with parseQFX_xml_transactions [of env xmlContent filename]
  obtain acct es where "t \<in> set (rights (map (qfxTransaction env acct filename) es))"
    by auto
  then show ?thesis by (blast dest: rights_map)
qed

lemma csvExample_parsed:
  "parseCSV referencePlatform csvExample =
     \<lparr> result_transactions =
         [\<lparr> txn_id = ''9inff9'', date = 1736553600000, description = ''MERCHANT X'',
            amount = - (1901 / 100), txn_type = DEBIT, categoryId = None,
            isExcluded = False, source = CSV, sourceFile = None, accountId = None,
            transactionId = None, memo = Some ''Original category: Restaurants'',
            isManuallyCategorized = False \<rparr>],
       result_errors = [] \<rparr>"
  by code_simp

lemma qfxExample_parsed:
  "parseQFX referencePlatform qfxExample None =
     \<lparr> result_transactions =
         [\<lparr> txn_id = ''7kye11'', date = 1736899200000, description = ''COFFEE SHOP'',
            amount = - (85 / 2), txn_type = DEBIT, categoryId = None, isExcluded = False,
            source = QFX, sourceFile = None, accountId = Some ''1234'',
            transactionId = Some ''F1'', memo = None, isManuallyCategorized = False \<rparr>,
          \<lparr> txn_id = ''jv8ehd'', date = 1736985600000, description = ''ADJUSTMENT'',
            amount = 0, txn_type = CREDIT, categoryId = None, isExcluded = False,
            source = QFX, sourceFile = None, accountId = Some ''1234'',
            transactionId = Some ''F2'', memo = None, isManuallyCategorized = False \<rparr>],
       result_errors = [] \<rparr>"
  by code_simp

section \<open>Parsers: claims\<close>

text \<open>
  C1.  For every platform, every transaction that \<open>parseQFX\<close> or \<open>parseCSV\<close> returns has
  a negative amount exactly when its type is \<open>DEBIT\<close>; a transaction of amount zero has
  type \<open>CREDIT\<close>.
\<close>

theorem sign_convention:
  "(\<forall>t\<in>set (result_transactions (parseQFX env content filename)).
      (amount t < 0 \<longleftrightarrow> txn_type t = DEBIT) \<and> (amount t = 0 \<longrightarrow> txn_type t = CREDIT))
   \<and> (\<forall>t\<in>set (result_transactions (parseCSV env csv)).
      (amount t < 0 \<longleftrightarrow> txn_type t = DEBIT) \<and> (amount t = 0 \<longrightarrow> txn_type t = CREDIT))"
proof (intro conjI ballI)
  fix t assume "t \<in> set (result_transactions (parseQFX env content filename))"
  then obtain acct e where "qfxTransaction env acct filename e = Inr t"
    using parseQFX_transactions by blast
  then have s: "amount t < 0 \<longleftrightarrow> txn_type t = DEBIT" by (rule qfxTransaction_sign)
  then show "amount t < 0 \<longleftrightarrow> txn_type t = DEBIT" .
  from s show "amount t = 0 \<longrightarrow> txn_type t = CREDIT" by (cases "txn_type t") auto
next
  fix t assume "t \<in> set (result_transactions (parseCSV env csv))"
  then obtain index r where "csvRow env index r = Inr t"
    using parseCSV_transactions by blast
  then obtain a where "amount t = - a" "txn_type t = (if - a < 0 then DEBIT else CREDIT)"
    using csvRow_amount by blast
  then have s: "amount t < 0 \<longleftrightarrow> txn_type t = DEBIT"
    by simp
  then show "amount t < 0 \<longleftrightarrow> txn_type t = DEBIT" .
  from s show "amount t = 0 \<longrightarrow> txn_type t = CREDIT" by (cases "txn_type t") auto
qed

theorem sign_convention_witness:
  "amount (result_transactions (parseQFX referencePlatform qfxExample None) ! 0) < 0
   \<and> txn_type (result_transactions (parseQFX referencePlatform qfxExample None) ! 0) = DEBIT
   \<and> amount (result_transactions (parseQFX referencePlatform qfxExample None) ! 1) = 0
   \<and> txn_type (result_transactions (parseQFX referencePlatform qfxExample None) ! 1) = CREDIT
   \<and> amount (result_transactions (parseCSV referencePlatform csvExample) ! 0) < 0
   \<and> txn_type (result_transactions (parseCSV referencePlatform csvExample) ! 0) = DEBIT"
proof -
  let ?q = "result_transactions (parseQFX referencePlatform qfxExample None)"
  let ?c = "result_transactions (parseCSV referencePlatform csvExample)"
  have m: "?q ! 0 \<in> set ?q" "?q ! 1 \<in> set ?q" "?c ! 0 \<in> set ?c"
    by (simp_all add: qfxExample_parsed csvExample_parsed)
  have a: "amount (?q ! 0) < 0" "amount (?q ! 1) = 0" "amount (?c ! 0) < 0"
    by (simp_all add: qfxExample_parsed csvExample_parsed)
  from sign_convention [of referencePlatform qfxExample None csvExample] m a
  show ?thesis by blast
qed

text \<open>
  C2.  A CSV row yields a transaction only if its amount field, with the commas
  removed, parses as a number \<open>a\<close>; the transaction then has the amount \<open>-a\<close> and the type
  that the sign of \<open>-a\<close> gives.  A row with a date, a description and such an amount
  yields a transaction.  The transactions of \<open>parseCSV\<close> are those of its rows, in
  order.
\<close>

theorem csv_sign_flip:
  "(csvRow env index r = Inr t \<longrightarrow>
      (\<exists>s a. r ''Amount'' = Some s
         \<and> parseFloat env (filter (\<lambda>c. c \<noteq> CHR '','') s) = Some a
         \<and> amount t = - a \<and> txn_type t = (if - a < 0 then DEBIT else CREDIT)))
   \<and> (r ''Trans. Date'' = Some transDate \<and> transDate \<noteq> []
       \<and> r ''Description'' = Some d \<and> d \<noteq> []
       \<and> r ''Amount'' = Some s' \<and> s' \<noteq> []
       \<and> parseCSVDate env transDate = Some day
       \<and> parseFloat env (filter (\<lambda>c. c \<noteq> CHR '','') s') = Some a' \<longrightarrow>
      (\<exists>t'. csvRow env index r = Inr t' \<and> amount t' = - a'
         \<and> txn_type t' = (if - a' < 0 then DEBIT else CREDIT)))
   \<and> result_transactions (parseCSV_complete env results)
       = rights (csvRows env (papa_data results))"
proof (intro conjI impI)
  assume "csvRow env index r = Inr t"
  then show "\<exists>s a. r ''Amount'' = Some s
         \<and> parseFloat env (filter (\<lambda>c. c \<noteq> CHR '','') s) = Some a
         \<and> amount t = - a \<and> txn_type t = (if - a < 0 then DEBIT else CREDIT)"
    by (rule csvRow_amount)
next
  assume "r ''Trans. Date'' = Some transDate \<and> transDate \<noteq> []
       \<and> r ''Description'' = Some d \<and> d \<noteq> []
       \<and> r ''Amount'' = Some s' \<and> s' \<noteq> []
       \<and> parseCSVDate env transDate = Some day
       \<and> parseFloat env (filter (\<lambda>c. c \<noteq> CHR '','') s') = Some a'"
  then show "\<exists>t'. csvRow env index r = Inr t' \<and> amount t' = - a'
         \<and> txn_type t' = (if - a' < 0 then DEBIT else CREDIT)"
    by (intro csvRow_accepts) auto
next
  show "result_transactions (parseCSV_complete env results)
          = rights (csvRows env (papa_data results))"
    by (simp add: parseCSV_complete_def Let_def)
qed

theorem csv_sign_flip_witness:
  "(\<exists>t. csvRow referencePlatform 0 exampleRow = Inr t \<and> amount t = - (1901 / 100)
        \<and> txn_type t = DEBIT)
   \<and> map amount (result_transactions (parseCSV referencePlatform csvExample)) = [- (1901 / 100)]
   \<and> map txn_type (result_transactions (parseCSV referencePlatform csvExample)) = [DEBIT]"
proof -
  have h: "exampleRow ''Trans. Date'' = Some ''01/11/2025'' \<and> ''01/11/2025'' \<noteq> []
       \<and> exampleRow ''Description'' = Some ''MERCHANT X'' \<and> ''MERCHANT X'' \<noteq> []
       \<and> exampleRow ''Amount'' = Some ''19.01'' \<and> ''19.01'' \<noteq> []
       \<and> parseCSVDate referencePlatform ''01/11/2025'' = Some 1736553600000
       \<and> parseFloat referencePlatform (filter (\<lambda>c. c \<noteq> CHR '','') ''19.01'') = Some (1901 / 100)"
    by code_simp
  from csv_sign_flip [of referencePlatform 0 exampleRow undefined "''01/11/2025''"
      "''MERCHANT X''" "''19.01''" 1736553600000 "1901 / 100"] h
  have "\<exists>t. csvRow referencePlatform 0 exampleRow = Inr t \<and> amount t = - (1901 / 100)
        \<and> txn_type t = (if - (1901 / 100 :: rat) < 0 then DEBIT else CREDIT)"
    by blast
  then have "\<exists>t. csvRow referencePlatform 0 exampleRow = Inr t \<and> amount t = - (1901 / 100)
        \<and> txn_type t = DEBIT"
    by simp
  then show ?thesis by (simp add: csvExample_parsed)
qed

section \<open>Categorization: claims\<close>

lemma categorize_falls_back:
  assumes "descriptionMappings this (description t) = None"
    and "firstMatch env pattern (description t) (sort_key match_priority (allPatterns this)) = None"
  shows "categorize env this t = firstMatch env id (description t) (legacyMatches this)"
  using assms by (simp add: categorize_def)

text \<open>
  C6, the failing input.  Two enabled legacy rules match the description
  \<open>AMAZON PRIME VIDEO\<close>, the first declared with priority 20 and the second with priority
  10; no category has a pattern.  \<open>categorize\<close> returns the category of the first declared
  rule; tried in ascending priority, the rules give the category of the second.
\<close>

theorem legacy_rules_in_declaration_order:
  "categorize referencePlatform legacyEngine primeVideo = Some ''shopping''
   \<and> firstMatch referencePlatform id (description primeVideo)
        (sort_key match_priority (legacyMatches legacyEngine)) = Some ''subscriptions''"
  by code_simp

text \<open>
  C7, as the code has it.  \<open>batchCategorize\<close> keeps the number and the order of the
  transactions, and changes nothing but the field \<open>categoryId\<close>, and that only in a
  transaction that is not manually categorized and has no category, where it stores the
  result of \<open>categorize\<close>; every other transaction is unchanged.
\<close>

theorem batchCategorize_frame:
  "length (batchCategorize env this ts) = length ts
   \<and> (\<forall>i<length ts.
        (batchCategorize env this ts ! i) \<lparr> categoryId := categoryId (ts ! i) \<rparr> = ts ! i
        \<and> (isManuallyCategorized (ts ! i) \<or> categoryId (ts ! i) \<notin> {None, Some []}
             \<longrightarrow> batchCategorize env this ts ! i = ts ! i)
        \<and> (\<not> isManuallyCategorized (ts ! i) \<and> categoryId (ts ! i) \<in> {None, Some []}
             \<longrightarrow> categoryId (batchCategorize env this ts ! i) = categorize env this (ts ! i)))"
  by (simp add: batchCategorize_def)

theorem batchCategorize_frame_witness:
  "batchCategorize referencePlatform coffeeEngine coffeeBatch ! 0
     = (coffeeBatch ! 0) \<lparr> categoryId := Some ''restaurants'' \<rparr>
   \<and> batchCategorize referencePlatform coffeeEngine coffeeBatch ! 1 = coffeeBatch ! 1
   \<and> batchCategorize referencePlatform coffeeEngine coffeeBatch ! 2 = coffeeBatch ! 2"
proof -
  have l: "0 < length coffeeBatch" "1 < length coffeeBatch" "2 < length coffeeBatch"
    by (simp_all add: coffeeBatch_def)
  have c: "categorize referencePlatform coffeeEngine (coffeeBatch ! 0) = Some ''restaurants''"
    by code_simp
  have f: "\<not> isManuallyCategorized (coffeeBatch ! 0)" "categoryId (coffeeBatch ! 0) = None"
    "categoryId (coffeeBatch ! 1) = Some ''groceries''" "isManuallyCategorized (coffeeBatch ! 2)"
    by (simp_all add: coffeeBatch_def debit_def)
  note t = batchCategorize_frame [of referencePlatform coffeeEngine coffeeBatch]
  from t l(1) f(1,2) c
  have 0: "(batchCategorize referencePlatform coffeeEngine coffeeBatch ! 0)
             \<lparr> categoryId := categoryId (coffeeBatch ! 0) \<rparr> = coffeeBatch ! 0"
    and 1: "categoryId (batchCategorize referencePlatform coffeeEngine coffeeBatch ! 0)
             = Some ''restaurants''"
    by auto
  have "batchCategorize referencePlatform coffeeEngine coffeeBatch ! 0
          = (coffeeBatch ! 0) \<lparr> categoryId := Some ''restaurants'' \<rparr>"
    using 0 1 by (metis Transaction.surjective Transaction.update_convs(6) Transaction.select_convs(6))
  moreover from t l(2) f(3)
  have "batchCategorize referencePlatform coffeeEngine coffeeBatch ! 1 = coffeeBatch ! 1"
    by auto
  moreover from t l(3) f(4)
  have "batchCategorize referencePlatform coffeeEngine coffeeBatch ! 2 = coffeeBatch ! 2"
    by auto
  ultimately show ?thesis by blast
qed

text \<open>
  C7, the mutation.  \<open>batchCategorize\<close> stores a category in a transaction object of
  its input: the first transaction of the batch has no category before the call and the
  category \<open>restaurants\<close> after it.
\<close>

theorem batchCategorize_mutates_input:
  "categoryId (coffeeBatch ! 0) = None
   \<and> categoryId (batchCategorize referencePlatform coffeeEngine coffeeBatch ! 0)
       = Some ''restaurants''"
  by code_simp

section \<open>Identity: lemmas\<close>

text \<open>What the parsers and the fingerprint read of the platform: everything but the clock
  and the random numbers.\<close>

lemma generateTransactionId_frame:
  "generateTransactionId (env \<lparr> dateNow := n, mathRandom := x \<rparr>) = generateTransactionId env"
  by (simp add: fun_eq_iff generateTransactionId_def transactionKey_def)

lemma parseOFXDate_frame:
  "parseOFXDate (env \<lparr> dateNow := n, mathRandom := x \<rparr>) = parseOFXDate env"
  by (simp add: fun_eq_iff parseOFXDate_def)

lemma parseCSVDate_frame:
  "parseCSVDate (env \<lparr> dateNow := n, mathRandom := x \<rparr>) = parseCSVDate env"
  by (simp add: fun_eq_iff parseCSVDate_def Let_def split: option.splits)

lemma qfxTransaction_frame:
  "qfxTransaction (env \<lparr> dateNow := n, mathRandom := x \<rparr>) = qfxTransaction env"
  by (simp add: fun_eq_iff qfxTransaction_def Let_def generateTransactionId_frame
      parseOFXDate_frame cong: option.case_cong)

lemma csvRow_frame:
  "csvRow (env \<lparr> dateNow := n, mathRandom := x \<rparr>) = csvRow env"
  by (simp add: fun_eq_iff csvRow_def Let_def generateTransactionId_frame parseCSVDate_frame
      cong: option.case_cong if_cong)

lemma parseQFX_xml_frame:
  "parseQFX_xml (env \<lparr> dateNow := n, mathRandom := x \<rparr>) = parseQFX_xml env"
  by (simp add: fun_eq_iff parseQFX_xml_def qfxTransaction_frame Let_def split: sum.splits)

lemma parseQFX_frame:
  "parseQFX (env \<lparr> dateNow := n, mathRandom := x \<rparr>) = parseQFX env"
  by (simp add: fun_eq_iff parseQFX_def parseQFX_xml_frame cong: sum.case_cong)

lemma parseCSV_complete_frame:
  "parseCSV_complete (env \<lparr> dateNow := n, mathRandom := x \<rparr>) = parseCSV_complete env"
  by (simp add: fun_eq_iff parseCSV_complete_def csvRows_def csvRow_frame)

lemma parseCSV_frame:
  "parseCSV (env \<lparr> dateNow := n, mathRandom := x \<rparr>) = parseCSV env"
  by (simp add: fun_eq_iff parseCSV_def parseCSV_complete_frame cong: sum.case_cong)

lemma addTransactions_again:
  assumes "txn_id ` set payload' \<subseteq> txn_id ` set payload"
  shows "addTransactions (addTransactions s payload) payload' = addTransactions s payload"
proof -
  have "txn_id t \<in> txn_id ` set (addTransactions s payload)" if "t \<in> set payload'" for t
  proof -
    from that assms obtain p where p: "p \<in> set payload" "txn_id p = txn_id t" by auto
    show ?thesis
    proof (cases "txn_id p \<in> txn_id ` set s")
      case True
      with p show ?thesis by (auto simp: addTransactions_def)
    next
      case False
      with p have "p \<in> set (addTransactions s payload)"
        by (simp add: addTransactions_def)
      with p show ?thesis by (metis imageI)
    qed
  qed
  then have "filter (\<lambda>t. txn_id t \<notin> txn_id ` set (addTransactions s payload)) payload' = []"
    by (simp add: filter_empty_conv)
  then show ?thesis
    by (simp add: addTransactions_def [of "addTransactions s payload"])
qed

section \<open>Identity: claims\<close>

text \<open>
  C8.  Two platforms that differ at most in their clock and their random numbers give
  the same fingerprint to the same date, amount, description and account; they give the
  same ids, in the same order, to the transactions of the same file; and adding the
  transactions of a file to a state that already holds them, by the reducer case
  \<open>ADD_TRANSACTIONS\<close>, changes nothing.
\<close>

theorem fingerprint_deterministic:
  assumes "env' \<lparr> dateNow := dateNow env, mathRandom := mathRandom env \<rparr> = env"
  shows "generateTransactionId env d a s acct = generateTransactionId env' d a s acct
    \<and> map txn_id (result_transactions (parseQFX env content filename))
        = map txn_id (result_transactions (parseQFX env' content filename))
    \<and> map txn_id (result_transactions (parseCSV env csv))
        = map txn_id (result_transactions (parseCSV env' csv))
    \<and> addTransactions (addTransactions st (result_transactions (parseQFX env content filename)))
          (result_transactions (parseQFX env' content filename))
        = addTransactions st (result_transactions (parseQFX env content filename))
    \<and> addTransactions (addTransactions st (result_transactions (parseCSV env csv)))
          (result_transactions (parseCSV env' csv))
        = addTransactions st (result_transactions (parseCSV env csv))"
proof -
  have g: "generateTransactionId env = generateTransactionId env'"
    by (subst assms [symmetric]) (rule generateTransactionId_frame)
  have q: "parseQFX env = parseQFX env'"
    by (subst assms [symmetric]) (rule parseQFX_frame)
  have c: "parseCSV env = parseCSV env'"
    by (subst assms [symmetric]) (rule parseCSV_frame)
  show ?thesis
    by (simp add: g q c addTransactions_again)
qed

theorem fingerprint_deterministic_witness:
  "generateTransactionId referencePlatform 1736553600000 (- (1901 / 100)) ''MERCHANT X'' None
     = generateTransactionId laterPlatform 1736553600000 (- (1901 / 100)) ''MERCHANT X'' None
   \<and> generateTransactionId referencePlatform 1736553600000 (- (1901 / 100)) ''MERCHANT X'' None
       = ''9inff9''
   \<and> generateId referencePlatform \<noteq> generateId laterPlatform
   \<and> length (addTransactions
         (addTransactions [] (result_transactions (parseCSV referencePlatform csvExample)))
         (result_transactions (parseCSV laterPlatform csvExample))) = 1"
proof -
  have h: "laterPlatform \<lparr> dateNow := dateNow referencePlatform,
             mathRandom := mathRandom referencePlatform \<rparr> = referencePlatform"
    by (simp add: laterPlatform_def referencePlatform_def)
  have i: "generateTransactionId referencePlatform 1736553600000 (- (1901 / 100)) ''MERCHANT X'' None
       = ''9inff9''"
    by code_simp
  have n: "generateId referencePlatform \<noteq> generateId laterPlatform"
    by code_simp
  have l: "length (addTransactions [] (result_transactions (parseCSV referencePlatform csvExample))) = 1"
    by (simp add: csvExample_parsed addTransactions_def)
  from fingerprint_deterministic [OF h, of 1736553600000 "- (1901 / 100)" "''MERCHANT X''" None
      qfxExample None csvExample "[]"] i n l
  show ?thesis by simp
qed

end
